theory Spec2Isabelle
  imports Complex_Main
begin

section \<open>Exceptions and logging\<close>

text \<open>
  The exceptions of the program, as values. \<open>Sqlite3Error\<close> stands for
  \<^verbatim>\<open>sqlite3.Error\<close> and all of its subclasses (OperationalError, IntegrityError,
  ProgrammingError, ...): the two \<^verbatim>\<open>except sqlite3.Error\<close> clauses of the source
  do not tell them apart. \<open>ValueError\<close> is what \<^verbatim>\<open>int()\<close> raises. \<open>OtherException\<close>
  is any exception that is neither. The string is \<^verbatim>\<open>str(e)\<close>.
\<close>

datatype exn = Sqlite3Error string | ValueError string | OtherException string

fun is_sqlite3_error :: "exn \<Rightarrow> bool" where
  "is_sqlite3_error (Sqlite3Error m) = True"
| "is_sqlite3_error (ValueError m) = False"
| "is_sqlite3_error (OtherException m) = False"

fun exn_str :: "exn \<Rightarrow> string" where
  "exn_str (Sqlite3Error m) = m"
| "exn_str (ValueError m) = m"
| "exn_str (OtherException m) = m"

datatype log_record = ERROR string | INFO string

section \<open>The storage engine: values, schemas, tables\<close>

text \<open>
  The program talks to SQLite through two SQL statements. The engine is not code of
  the repository; what follows is the part of SQLite's documented behaviour that those
  two statements exercise. Values are stored as they are bound (the source binds Python
  ints, strs and floats that already have the storage class of their column, so column
  affinity changes nothing), and a primary key is always bound (the allocation of a
  rowid for a NULL key is not modelled).
\<close>

datatype val = NULL | VInt int | VText string | VReal real

datatype sqltype = INTEGER | TEXT | REAL | TIMESTAMP

text \<open>
  The CHECK expressions of the DDL compare a column with an integer literal:
  \<^verbatim>\<open>age >= 0 AND age <= 150\<close> is \<open>Conj (Ge ''age'' 0) (Le ''age'' 150)\<close>.
\<close>

datatype check_expr = Ge string int | Le string int | Conj check_expr check_expr

datatype col_constraint =
  PRIMARY_KEY | NOT_NULL | UNIQUE | CHECK check_expr | DEFAULT_CURRENT_TIMESTAMP

datatype column = Column (cname: string) (ctype: sqltype) (cconstraints: "col_constraint list")

text \<open>A row associates column names with values; a column without entry reads NULL.\<close>

type_synonym row = "(string \<times> val) list"

definition cell :: "row \<Rightarrow> string \<Rightarrow> val" where
  "cell r c = (case map_of r c of Some v \<Rightarrow> v | None \<Rightarrow> NULL)"

record table =
  columns :: "column list"
  rows :: "row list"

text \<open>A database file: its tables by name.\<close>

type_synonym database = "string \<rightharpoonup> table"

subsection \<open>CHECK constraints\<close>

text \<open>
  SQL comparisons are three-valued: a comparison with NULL is unknown (\<open>None\<close>). SQLite
  orders every number before every text. A CHECK constraint is violated only when its
  expression is false; unknown passes.
\<close>

fun compare_ge :: "val \<Rightarrow> int \<Rightarrow> bool option" where
  "compare_ge NULL n = None"
| "compare_ge (VInt i) n = Some (n \<le> i)"
| "compare_ge (VReal x) n = Some (of_int n \<le> x)"
| "compare_ge (VText s) n = Some True"

fun compare_le :: "val \<Rightarrow> int \<Rightarrow> bool option" where
  "compare_le NULL n = None"
| "compare_le (VInt i) n = Some (i \<le> n)"
| "compare_le (VReal x) n = Some (x \<le> of_int n)"
| "compare_le (VText s) n = Some False"

fun sql_and :: "bool option \<Rightarrow> bool option \<Rightarrow> bool option" where
  "sql_and (Some False) b = Some False"
| "sql_and a (Some False) = Some False"
| "sql_and (Some True) (Some True) = Some True"
| "sql_and a b = None"

fun eval_check :: "row \<Rightarrow> check_expr \<Rightarrow> bool option" where
  "eval_check r (Ge c n) = compare_ge (cell r c) n"
| "eval_check r (Le c n) = compare_le (cell r c) n"
| "eval_check r (Conj a b) = sql_and (eval_check r a) (eval_check r b)"

fun constraint_ok :: "row \<Rightarrow> string \<Rightarrow> col_constraint \<Rightarrow> bool" where
  "constraint_ok r c NOT_NULL = (cell r c \<noteq> NULL)"
| "constraint_ok r c (CHECK e) = (eval_check r e \<noteq> Some False)"
| "constraint_ok r c PRIMARY_KEY = True"
| "constraint_ok r c UNIQUE = True"
| "constraint_ok r c DEFAULT_CURRENT_TIMESTAMP = True"

definition row_checks_ok :: "column list \<Rightarrow> row \<Rightarrow> bool" where
  "row_checks_ok cols r =
     list_all (\<lambda>col. list_all (constraint_ok r (cname col)) (cconstraints col)) cols"

subsection \<open>INSERT OR REPLACE\<close>

text \<open>
  A column that the statement does not bind takes its default (NULL without a DEFAULT
  clause). Under REPLACE a NULL bound to a NOT NULL column is replaced by the default
  too, and the NOT NULL check then decides.
\<close>

definition default_value :: "column \<Rightarrow> string \<Rightarrow> val" where
  "default_value col now =
     (if DEFAULT_CURRENT_TIMESTAMP \<in> set (cconstraints col) then VText now else NULL)"

definition build_cell :: "string list \<Rightarrow> val list \<Rightarrow> string \<Rightarrow> column \<Rightarrow> val" where
  "build_cell cols params now col =
     (case map_of (zip cols params) (cname col) of
        None \<Rightarrow> default_value col now
      | Some v \<Rightarrow> if v = NULL \<and> NOT_NULL \<in> set (cconstraints col)
                  then default_value col now else v)"

definition build_row :: "column list \<Rightarrow> string list \<Rightarrow> val list \<Rightarrow> string \<Rightarrow> row" where
  "build_row tcols cols params now =
     map (\<lambda>col. (cname col, build_cell cols params now col)) tcols"

text \<open>
  The columns that carry a uniqueness constraint, and the conflict of a stored row with
  a new one: both hold the same non-NULL value in such a column. REPLACE deletes every
  stored row that conflicts, on the primary key or on any UNIQUE column, and then inserts
  the new row.
\<close>

definition is_key :: "column \<Rightarrow> bool" where
  "is_key col = (PRIMARY_KEY \<in> set (cconstraints col) \<or> UNIQUE \<in> set (cconstraints col))"

definition conflicts :: "column list \<Rightarrow> row \<Rightarrow> row \<Rightarrow> bool" where
  "conflicts tcols new old =
     list_ex (\<lambda>col. is_key col \<and> cell new (cname col) \<noteq> NULL
                    \<and> cell old (cname col) = cell new (cname col)) tcols"

definition insert_or_replace ::
  "string \<Rightarrow> string list \<Rightarrow> val list \<Rightarrow> string \<Rightarrow> database \<Rightarrow> exn + database" where
  "insert_or_replace tname cols params now db =
     (case db tname of
        None \<Rightarrow> Inl (Sqlite3Error (''no such table: '' @ tname))
      | Some t \<Rightarrow>
          if \<not> list_all (\<lambda>c. c \<in> set (map cname (columns t))) cols
          then Inl (Sqlite3Error (''table '' @ tname @ '' has no such column''))
          else if length params \<noteq> length cols
          then Inl (Sqlite3Error ''Incorrect number of bindings supplied'')
          else let new = build_row (columns t) cols params now in
            if \<not> row_checks_ok (columns t) new
            then Inl (Sqlite3Error ''constraint failed'')
            else Inr (db(tname \<mapsto>
                   t\<lparr>rows := filter (\<lambda>old. \<not> conflicts (columns t) new old) (rows t) @ [new]\<rparr>)))"

subsection \<open>CREATE TABLE\<close>

text \<open>
  With IF NOT EXISTS (the flag) the statement does nothing when a table of that name
  exists, whatever its columns; without the flag it is an error.
\<close>

definition create_table :: "bool \<Rightarrow> string \<Rightarrow> column list \<Rightarrow> database \<Rightarrow> exn + database" where
  "create_table if_not_exists tname cols db =
     (case db tname of
        Some t \<Rightarrow> if if_not_exists then Inr db
                  else Inl (Sqlite3Error (''table '' @ tname @ '' already exists''))
      | None \<Rightarrow> Inr (db(tname \<mapsto> \<lparr>columns = cols, rows = []\<rparr>)))"

datatype statement =
  CREATE_TABLE bool string "column list"
| INSERT_OR_REPLACE string "string list"

fun is_dml :: "statement \<Rightarrow> bool" where
  "is_dml (CREATE_TABLE f n cs) = False"
| "is_dml (INSERT_OR_REPLACE n cs) = True"

fun run_statement :: "statement \<Rightarrow> val list \<Rightarrow> string \<Rightarrow> database \<Rightarrow> exn + database" where
  "run_statement (CREATE_TABLE f n cs) params now db = create_table f n cs db"
| "run_statement (INSERT_OR_REPLACE n cs) params now db = insert_or_replace n cs params now db"

section \<open>The world the program runs in\<close>

text \<open>
  The two names that the engine does not open as a file: \<^verbatim>\<open>:memory:\<close> gives a database
  in memory and the empty name a temporary one. Either is private to its connection and
  gone when the connection is closed; a later connection under the same name starts from
  an empty database.
\<close>

definition private_path :: "string \<Rightarrow> bool" where
  "private_path path = (path = '':memory:'' \<or> path = [])"

text \<open>
  A connection object of the engine: the path and the timeout it was opened with, its
  \<^verbatim>\<open>row_factory\<close> attribute, its private database (used only under a private name),
  the working copy of the database while a transaction is open, and whether it has been
  closed.
\<close>

datatype row_factory = Tuples | Row

record connection_state =
  c_path :: string
  c_timeout :: int
  c_row_factory :: row_factory
  c_private :: database
  c_txn :: "database option"
  c_closed :: bool

text \<open>
  The state outside the program: the process environment, the database files by path
  (committed content; the entries at the two private names are never read or written),
  the store of connection objects by handle, the records written
  through \<^verbatim>\<open>logging\<close>, and the clock of the engine (the text CURRENT_TIMESTAMP
  yields). \<open>faults\<close> is the behaviour of the environment that the program cannot
  predict: each call into the engine that touches the file takes the next entry, and an
  entry \<open>Some e\<close> makes that call raise \<open>e\<close> (file not writable, database locked until
  the timeout, disk full, ...). The calls that take an entry are the open, execute,
  executemany and commit; closing a connection and writing a log record do not fail.
  The clock does not move during one call of the program. A file is written through one
  connection at a time, as the program does (it is single-threaded and closes each
  connection before it opens the next); the locking between concurrent writers is the
  engine's and is not part of this model.
\<close>

record world =
  environ :: "string \<rightharpoonup> string"
  files :: "string \<Rightarrow> database"
  conns :: "nat \<rightharpoonup> connection_state"
  next_handle :: nat
  logged :: "log_record list"
  faults :: "exn option list"
  clock :: string

type_synonym 'a action = "world \<Rightarrow> (exn + 'a) \<times> world"

definition and_then :: "'a action \<Rightarrow> ('a \<Rightarrow> 'b action) \<Rightarrow> 'b action" where
  "and_then m f w = (case m w of (Inl e, w1) \<Rightarrow> (Inl e, w1) | (Inr x, w1) \<Rightarrow> f x w1)"

definition logging_error :: "string \<Rightarrow> world \<Rightarrow> world" where
  "logging_error msg w = w\<lparr>logged := logged w @ [ERROR msg]\<rparr>"

definition logging_info :: "string \<Rightarrow> world \<Rightarrow> world" where
  "logging_info msg w = w\<lparr>logged := logged w @ [INFO msg]\<rparr>"

subsection \<open>The calls of the sqlite3 module\<close>

definition engine_fault :: "world \<Rightarrow> exn option \<times> world" where
  "engine_fault w = (case faults w of [] \<Rightarrow> (None, w) | f # fs \<Rightarrow> (f, w\<lparr>faults := fs\<rparr>))"

definition is_open :: "world \<Rightarrow> nat \<Rightarrow> bool" where
  "is_open w h = (case conns w h of None \<Rightarrow> False | Some c \<Rightarrow> \<not> c_closed c)"

definition closed_error :: exn where
  "closed_error = Sqlite3Error ''Cannot operate on a closed database.''"

definition sqlite3_connect :: "string \<Rightarrow> int \<Rightarrow> nat action" where
  "sqlite3_connect path timeout w =
     (case engine_fault w of
        (Some e, w1) \<Rightarrow> (Inl e, w1)
      | (None, w1) \<Rightarrow>
          let h = next_handle w1 in
          (Inr h, w1\<lparr>conns := (conns w1)(h \<mapsto>
                        \<lparr>c_path = path, c_timeout = timeout, c_row_factory = Tuples,
                         c_private = Map.empty, c_txn = None, c_closed = False\<rparr>),
                      next_handle := Suc h\<rparr>))"

definition set_row_factory :: "nat \<Rightarrow> row_factory \<Rightarrow> world \<Rightarrow> world" where
  "set_row_factory h f w =
     (case conns w h of
        None \<Rightarrow> w
      | Some c \<Rightarrow> w\<lparr>conns := (conns w)(h \<mapsto> c\<lparr>c_row_factory := f\<rparr>)\<rparr>)"

text \<open>A cursor works on its connection; it is identified with the connection's handle.\<close>

definition connection_cursor :: "nat \<Rightarrow> nat action" where
  "connection_cursor h w = (if is_open w h then (Inr h, w) else (Inl closed_error, w))"

text \<open>
  The committed database of a connection is the file at its path, or its private
  database under a private name; \<open>write_db\<close> replaces it.
\<close>

definition committed_db :: "world \<Rightarrow> connection_state \<Rightarrow> database" where
  "committed_db w c = (if private_path (c_path c) then c_private c else files w (c_path c))"

definition write_db :: "nat \<Rightarrow> connection_state \<Rightarrow> database \<Rightarrow> world \<Rightarrow> world" where
  "write_db h c db w =
     (if private_path (c_path c)
      then w\<lparr>conns := (conns w)(h \<mapsto> c\<lparr>c_private := db\<rparr>)\<rparr>
      else w\<lparr>files := (files w)(c_path c := db), conns := (conns w)(h \<mapsto> c)\<rparr>)"

text \<open>
  The module's transaction control (the default, legacy mode): before a data-changing
  statement it opens a transaction when none is open, and the statements then work on
  the connection's copy until commit. A DDL statement outside a transaction takes
  effect on the committed database at once.
\<close>

definition begin_if_dml :: "statement \<Rightarrow> world \<Rightarrow> connection_state \<Rightarrow> connection_state" where
  "begin_if_dml stmt w c =
     (if is_dml stmt \<and> c_txn c = None then c\<lparr>c_txn := Some (committed_db w c)\<rparr> else c)"

definition current_db :: "world \<Rightarrow> connection_state \<Rightarrow> database" where
  "current_db w c = (case c_txn c of Some d \<Rightarrow> d | None \<Rightarrow> committed_db w c)"

definition store_db :: "nat \<Rightarrow> connection_state \<Rightarrow> database \<Rightarrow> world \<Rightarrow> world" where
  "store_db h c db w =
     (case c_txn c of
        Some d \<Rightarrow> w\<lparr>conns := (conns w)(h \<mapsto> c\<lparr>c_txn := Some db\<rparr>)\<rparr>
      | None \<Rightarrow> write_db h c db w)"

definition cursor_execute :: "nat \<Rightarrow> statement \<Rightarrow> val list \<Rightarrow> unit action" where
  "cursor_execute h stmt params w =
     (case conns w h of
        None \<Rightarrow> (Inl closed_error, w)
      | Some c \<Rightarrow>
          if c_closed c then (Inl closed_error, w)
          else (case engine_fault w of
            (Some e, w1) \<Rightarrow> (Inl e, w1)
          | (None, w1) \<Rightarrow>
              let c1 = begin_if_dml stmt w1 c in
              (case run_statement stmt params (clock w1) (current_db w1 c1) of
                 Inl e \<Rightarrow> (Inl e, w1\<lparr>conns := (conns w1)(h \<mapsto> c1)\<rparr>)
               | Inr db \<Rightarrow> (Inr (), store_db h c1 db w1))))"

text \<open>
  \<^verbatim>\<open>executemany\<close> runs the statement once for each parameter row, in order, and
  stops at the first row that fails; the rows before it stay in the open transaction.
\<close>

fun run_many :: "statement \<Rightarrow> val list list \<Rightarrow> string \<Rightarrow> database \<Rightarrow> exn option \<times> database" where
  "run_many stmt [] now db = (None, db)"
| "run_many stmt (p # ps) now db =
     (case run_statement stmt p now db of
        Inl e \<Rightarrow> (Some e, db)
      | Inr db' \<Rightarrow> run_many stmt ps now db')"

definition cursor_executemany :: "nat \<Rightarrow> statement \<Rightarrow> val list list \<Rightarrow> unit action" where
  "cursor_executemany h stmt paramss w =
     (case conns w h of
        None \<Rightarrow> (Inl closed_error, w)
      | Some c \<Rightarrow>
          if c_closed c then (Inl closed_error, w)
          else if \<not> is_dml stmt
          then (Inl (Sqlite3Error ''executemany() can only execute DML statements.''), w)
          else (case engine_fault w of
            (Some e, w1) \<Rightarrow> (Inl e, w1)
          | (None, w1) \<Rightarrow>
              let c1 = begin_if_dml stmt w1 c in
              (case run_many stmt paramss (clock w1) (current_db w1 c1) of
                 (Some e, db) \<Rightarrow> (Inl e, store_db h c1 db w1)
               | (None, db) \<Rightarrow> (Inr (), store_db h c1 db w1))))"

definition connection_commit :: "nat \<Rightarrow> unit action" where
  "connection_commit h w =
     (case conns w h of
        None \<Rightarrow> (Inl closed_error, w)
      | Some c \<Rightarrow>
          if c_closed c then (Inl closed_error, w)
          else (case engine_fault w of
            (Some e, w1) \<Rightarrow> (Inl e, w1)
          | (None, w1) \<Rightarrow>
              (case c_txn c of
                 None \<Rightarrow> (Inr (), w1)
               | Some d \<Rightarrow> (Inr (), write_db h (c\<lparr>c_txn := None\<rparr>) d w1))))"

text \<open>
  Closing discards a transaction that was not committed, and the private database of the
  connection. It does not fail.
\<close>

definition connection_close :: "nat \<Rightarrow> world \<Rightarrow> world" where
  "connection_close h w =
     (case conns w h of
        None \<Rightarrow> w
      | Some c \<Rightarrow>
          w\<lparr>conns := (conns w)(h \<mapsto>
                 c\<lparr>c_private := Map.empty, c_txn := None, c_closed := True\<rparr>)\<rparr>)"

section \<open>The Python builtins the constructor uses\<close>

text \<open>\<^verbatim>\<open>os.getenv(key, default)\<close>: the value of the variable, the default when it is unset.\<close>

definition getenv :: "world \<Rightarrow> string \<Rightarrow> string \<Rightarrow> string" where
  "getenv w key dflt = (case environ w key of None \<Rightarrow> dflt | Some v \<Rightarrow> v)"

text \<open>
  \<^verbatim>\<open>int(s)\<close> on a string, base 10: white space around the literal is dropped; then an
  optional sign; then decimal digits, where single underscores may stand between digits.
  Anything else raises ValueError. Strings are ASCII here, and on an ASCII string the
  white space of \<^verbatim>\<open>int()\<close> is \<^verbatim>\<open>\t \n \v \f \r\<close> and the space. (Digits and spaces
  outside ASCII, and the interpreter's limit on the number of digits, are left out.)
\<close>

definition is_space :: "char \<Rightarrow> bool" where
  "is_space c = ((of_char c :: nat) \<in> set [9, 10, 11, 12, 13, 32])"

definition is_digit :: "char \<Rightarrow> bool" where
  "is_digit c = (48 \<le> (of_char c :: nat) \<and> (of_char c :: nat) \<le> 57)"

definition digit_value :: "char \<Rightarrow> int" where
  "digit_value c = int (of_char c) - 48"

fun parse_digits :: "int \<Rightarrow> bool \<Rightarrow> string \<Rightarrow> int option" where
  "parse_digits acc after_underscore [] = (if after_underscore then None else Some acc)"
| "parse_digits acc after_underscore (c # cs) =
     (if is_digit c then parse_digits (10 * acc + digit_value c) False cs
      else if c = CHR ''_'' \<and> \<not> after_underscore then parse_digits acc True cs
      else None)"

definition parse_literal :: "string \<Rightarrow> int option" where
  "parse_literal s =
     (case s of
        [] \<Rightarrow> None
      | c # cs \<Rightarrow> if is_digit c then parse_digits 0 False s else None)"

definition parse_signed :: "string \<Rightarrow> int option" where
  "parse_signed s =
     (case s of
        [] \<Rightarrow> None
      | c # cs \<Rightarrow>
          if c = CHR ''+'' then parse_literal cs
          else if c = CHR ''-'' then map_option uminus (parse_literal cs)
          else parse_literal s)"

definition strip :: "string \<Rightarrow> string" where
  "strip s = rev (dropWhile is_space (rev (dropWhile is_space s)))"

definition py_int :: "string \<Rightarrow> exn + int" where
  "py_int s =
     (case parse_signed (strip s) of
        None \<Rightarrow> Inl (ValueError (''invalid literal for int() with base 10: '' @ s))
      | Some n \<Rightarrow> Inr n)"

section \<open>The program\<close>

record DatabaseConnection =
  dbPath :: string
  connectionTimeout :: int

text \<open>
  \<^verbatim>\<open>__init__\<close>. The environment is part of the world; the constructor reads it and
  returns the world as it was.
\<close>

definition init :: "DatabaseConnection action" where
  "init w =
     (let path = getenv w ''DATABASE_PATH'' ''users.db'' in
      case py_int (getenv w ''DB_TIMEOUT'' ''30'') of
        Inl e \<Rightarrow> (Inl e, w)
      | Inr timeout \<Rightarrow> (Inr \<lparr>dbPath = path, connectionTimeout = timeout\<rparr>, w))"

text \<open>
  \<^verbatim>\<open>getConnection\<close>, a generator under \<^verbatim>\<open>@contextmanager\<close>; \<open>body\<close> is the block of
  the caller's \<^verbatim>\<open>with\<close> statement, which receives the connection. An exception of the
  body is raised at the \<^verbatim>\<open>yield\<close>. The \<^verbatim>\<open>except\<close> clause logs an sqlite3.Error and
  raises it again; any other exception passes it by. The \<^verbatim>\<open>finally\<close> clause closes
  the connection when \<^verbatim>\<open>connection\<close> is not None, that is, when the open succeeded.
\<close>

definition connection_error :: "exn \<Rightarrow> world \<Rightarrow> world" where
  "connection_error e w =
     (if is_sqlite3_error e
      then logging_error (''Database connection error: '' @ exn_str e) w else w)"

definition getConnection :: "DatabaseConnection \<Rightarrow> (nat \<Rightarrow> 'a action) \<Rightarrow> 'a action" where
  "getConnection self body w =
     (case sqlite3_connect (dbPath self) (connectionTimeout self) w of
        (Inl e, w1) \<Rightarrow> (Inl e, connection_error e w1)
      | (Inr connection, w1) \<Rightarrow>
          (case body connection (set_row_factory connection Row w1) of
             (Inl e, w2) \<Rightarrow> (Inl e, connection_close connection (connection_error e w2))
           | (Inr x, w2) \<Rightarrow> (Inr x, connection_close connection w2)))"

text \<open>\<^verbatim>\<open>_createUserTable\<close>: the DDL of the source, column by column.\<close>

definition users_columns :: "column list" where
  "users_columns =
     [Column ''id'' INTEGER [PRIMARY_KEY],
      Column ''name'' TEXT [NOT_NULL],
      Column ''email'' TEXT [NOT_NULL, UNIQUE],
      Column ''age'' INTEGER [CHECK (Conj (Ge ''age'' 0) (Le ''age'' 150))],
      Column ''department'' TEXT [NOT_NULL],
      Column ''salary'' REAL [CHECK (Ge ''salary'' 0)],
      Column ''created_at'' TIMESTAMP [DEFAULT_CURRENT_TIMESTAMP] ]"

definition createUserTable :: "nat \<Rightarrow> unit action" where
  "createUserTable cursor = cursor_execute cursor (CREATE_TABLE True ''users'' users_columns) []"

text \<open>\<^verbatim>\<open>_insertSampleData\<close>.\<close>

definition sampleUsers :: "val list list" where
  "sampleUsers =
     [ [VInt 1, VText ''John Doe'', VText ''john@example.com'', VInt 30, VText ''IT'', VReal 75000],
      [VInt 2, VText ''Jane Smith'', VText ''jane@example.com'', VInt 28, VText ''HR'', VReal 65000],
      [VInt 3, VText ''Bob Johnson'', VText ''bob@example.com'', VInt 35, VText ''Finance'', VReal 80000],
      [VInt 4, VText ''Alice Brown'', VText ''alice@example.com'', VInt 32, VText ''IT'', VReal 78000],
      [VInt 5, VText ''Charlie Davis'', VText ''charlie@example.com'', VInt 29, VText ''Marketing'',
       VReal 70000] ]"

definition insertSampleData :: "nat \<Rightarrow> unit action" where
  "insertSampleData cursor =
     cursor_executemany cursor
       (INSERT_OR_REPLACE ''users'' [''id'', ''name'', ''email'', ''age'', ''department'', ''salary''])
       sampleUsers"

text \<open>
  \<^verbatim>\<open>initializeDatabase\<close>. The block of its \<^verbatim>\<open>with\<close> statement first; then the
  \<^verbatim>\<open>try\<close> around it, which turns an sqlite3.Error into a log record and False and lets
  any other exception through.
\<close>

definition initializeDatabase_body :: "nat \<Rightarrow> bool action" where
  "initializeDatabase_body connection =
     and_then (connection_cursor connection) (\<lambda>cursor.
     and_then (createUserTable cursor) (\<lambda>u1.
     and_then (insertSampleData cursor) (\<lambda>u2.
     and_then (connection_commit connection) (\<lambda>u3 w.
       (Inr True, logging_info ''Database initialized successfully'' w)))))"

definition initializeDatabase :: "DatabaseConnection \<Rightarrow> bool action" where
  "initializeDatabase self w =
     (case getConnection self initializeDatabase_body w of
        (Inl e, w1) \<Rightarrow>
          if is_sqlite3_error e
          then (Inr False, logging_error (''Database initialization failed: '' @ exn_str e) w1)
          else (Inl e, w1)
      | (Inr b, w1) \<Rightarrow> (Inr b, w1))"

section \<open>Observations\<close>

text \<open>
  What the statements below speak about. The fault script, read without consuming it:
  the entry the next engine call will take, and the world after it was taken.
\<close>

definition next_fault :: "world \<Rightarrow> exn option" where
  "next_fault w = (case faults w of [] \<Rightarrow> None | f # fs \<Rightarrow> f)"

definition tick :: "world \<Rightarrow> world" where
  "tick w = w\<lparr>faults := tl (faults w)\<rparr>"

text \<open>
  The database that a connection opened now under a path would find: the file, or
  nothing under a private name. The users table of a database (the empty table of the
  DDL when the database has none), the rows of the users table stored at a path, the
  users table and the rows a SELECT through an open cursor sees (the connection's copy
  while a transaction is open).
\<close>

definition stored_db :: "world \<Rightarrow> string \<Rightarrow> database" where
  "stored_db w path = (if private_path path then Map.empty else files w path)"

definition users_table :: "database \<Rightarrow> table" where
  "users_table db =
     (case db ''users'' of None \<Rightarrow> \<lparr>columns = users_columns, rows = []\<rparr> | Some t \<Rightarrow> t)"

definition users_rows :: "world \<Rightarrow> string \<Rightarrow> row list" where
  "users_rows w path = rows (users_table (stored_db w path))"

definition table_seen :: "world \<Rightarrow> nat \<Rightarrow> table option" where
  "table_seen w h = (case conns w h of None \<Rightarrow> None | Some c \<Rightarrow> current_db w c ''users'')"

definition select_users :: "world \<Rightarrow> nat \<Rightarrow> row list" where
  "select_users w h =
     (case conns w h of None \<Rightarrow> [] | Some c \<Rightarrow> rows (users_table (current_db w c)))"

text \<open>
  The scope of the statements about rows: the database stored at the path has no users
  table yet (a fresh path), or it has the users table with the columns of the DDL of
  the source.
\<close>

definition table_ok :: "world \<Rightarrow> string \<Rightarrow> bool" where
  "table_ok w path =
     (case stored_db w path ''users'' of None \<Rightarrow> True | Some t \<Rightarrow> columns t = users_columns)"

text \<open>
  The ids and the emails of the five seed rows, a stored row that has one of them, the
  row the engine stores for a parameter tuple at a given clock, and the rows of the
  table after the five statements.
\<close>

definition seed_ids :: "val list" where
  "seed_ids = [VInt 1, VInt 2, VInt 3, VInt 4, VInt 5]"

definition seed_emails :: "val list" where
  "seed_emails =
     [VText ''john@example.com'', VText ''jane@example.com'', VText ''bob@example.com'',
      VText ''alice@example.com'', VText ''charlie@example.com'']"

definition seed_conflict :: "row \<Rightarrow> bool" where
  "seed_conflict r = (cell r ''id'' \<in> set seed_ids \<or> cell r ''email'' \<in> set seed_emails)"

definition stored_row :: "string \<Rightarrow> val list \<Rightarrow> row" where
  "stored_row now p =
     zip [''id'', ''name'', ''email'', ''age'', ''department'', ''salary'', ''created_at'']
         (p @ [VText now])"

definition seeded :: "string \<Rightarrow> row list \<Rightarrow> row list" where
  "seeded now old = filter (\<lambda>r. \<not> seed_conflict r) old @ map (stored_row now) sampleUsers"

text \<open>The query of the rows with ids 1 to 5, and the six fields the seed data binds.\<close>

definition seed_rows :: "world \<Rightarrow> string \<Rightarrow> row list" where
  "seed_rows w path = filter (\<lambda>r. cell r ''id'' \<in> set seed_ids) (users_rows w path)"

definition six_fields :: "row \<Rightarrow> val list" where
  "six_fields r = map (cell r) [''id'', ''name'', ''email'', ''age'', ''department'', ''salary'']"

text \<open>The connection object right after \<^verbatim>\<open>getConnection\<close> has opened and configured it.\<close>

definition opened :: "DatabaseConnection \<Rightarrow> connection_state" where
  "opened self =
     \<lparr>c_path = dbPath self, c_timeout = connectionTimeout self, c_row_factory = Row,
      c_private = Map.empty, c_txn = None, c_closed = False\<rparr>"

definition created_files :: "world \<Rightarrow> string \<Rightarrow> string \<Rightarrow> database" where
  "created_files w p = (files w)(p := (files w p)(''users'' \<mapsto> users_table (files w p)))"

definition seeded_files :: "world \<Rightarrow> string \<Rightarrow> string \<Rightarrow> database" where
  "seeded_files w p =
     (files w)(p := (files w p)(''users'' \<mapsto>
        (users_table (files w p))\<lparr>rows := seeded (clock w) (rows (users_table (files w p)))\<rparr>))"

text \<open>
  A block for \<^verbatim>\<open>getConnection\<close> that reports the path and the timeout of the connection
  it is given, and one that raises an exception that is no storage-engine error.
\<close>

definition connection_settings :: "nat \<Rightarrow> (string \<times> int) option action" where
  "connection_settings h w = (Inr (map_option (\<lambda>c. (c_path c, c_timeout c)) (conns w h)), w)"

definition failing_block :: "nat \<Rightarrow> unit action" where
  "failing_block h w = (Inl (OtherException ''KeyError''), w)"

text \<open>
  Successive calls of \<^verbatim>\<open>initializeDatabase\<close>. Between two calls the environment moves on:
  each call has its own fault script and its own clock. The results are returned in order.
\<close>

fun initialize_repeatedly ::
  "DatabaseConnection \<Rightarrow> (exn option list \<times> string) list \<Rightarrow> world \<Rightarrow> (exn + bool) list \<times> world" where
  "initialize_repeatedly self [] w = ([], w)"
| "initialize_repeatedly self ((fs, now) # envs) w =
     (case initializeDatabase self (w\<lparr>faults := fs, clock := now\<rparr>) of
        (r, w1) \<Rightarrow> (case initialize_repeatedly self envs w1 of (rs, w2) \<Rightarrow> (r # rs, w2)))"

section \<open>Example worlds\<close>

text \<open>
  A world with an empty environment and no database file, a component configured with
  the defaults, and the same world where opening the file fails.
\<close>

definition example_world :: world where
  "example_world =
     \<lparr>environ = Map.empty, files = (\<lambda>path. Map.empty), conns = Map.empty, next_handle = 0,
      logged = [], faults = [], clock = ''2024-01-01 00:00:00''\<rparr>"

definition example_self :: DatabaseConnection where
  "example_self = \<lparr>dbPath = ''users.db'', connectionTimeout = 30\<rparr>"

definition unopenable_world :: world where
  "unopenable_world =
     example_world\<lparr>faults := [Some (Sqlite3Error ''unable to open database file'')]\<rparr>"

definition bad_timeout_world :: world where
  "bad_timeout_world = example_world\<lparr>environ := [''DB_TIMEOUT'' \<mapsto> ''thirty'']\<rparr>"

text \<open>
  A file whose users table holds three rows: one with id 1 and data of its own, one with
  id 6 and the email of the first seed row, one with id 7 and an email of its own. And
  the same world with a connection open on that file.
\<close>

definition old_row :: row where
  "old_row =
     [(''id'', VInt 1), (''name'', VText ''Old John''), (''email'', VText ''old@example.com''),
      (''age'', VInt 64), (''department'', VText ''Board''), (''salary'', VReal 1),
      (''created_at'', VText ''2020-02-02 08:00:00'')]"

definition eve_row :: row where
  "eve_row =
     [(''id'', VInt 6), (''name'', VText ''Eve Adams''), (''email'', VText ''john@example.com''),
      (''age'', VInt 41), (''department'', VText ''Sales''), (''salary'', VReal 50000),
      (''created_at'', VText ''2023-05-05 10:00:00'')]"

definition frank_row :: row where
  "frank_row =
     [(''id'', VInt 7), (''name'', VText ''Frank Moss''), (''email'', VText ''frank@example.com''),
      (''age'', VInt 52), (''department'', VText ''IT''), (''salary'', VReal 60000),
      (''created_at'', VText ''2023-06-06 11:00:00'')]"

definition conflicting_world :: world where
  "conflicting_world =
     example_world\<lparr>files := (\<lambda>path.
        [''users'' \<mapsto> \<lparr>columns = users_columns, rows = [old_row, eve_row, frank_row]\<rparr>])\<rparr>"

definition connected_world :: world where
  "connected_world =
     conflicting_world\<lparr>conns := [0 \<mapsto> opened example_self], next_handle := 1\<rparr>"

text \<open>
  Four calls in a row: the first succeeds, the second finds the database locked at the
  insert, the third succeeds, the fourth cannot open the file.
\<close>

definition four_runs :: "(exn option list \<times> string) list" where
  "four_runs =
     [([], ''2024-01-01 00:00:00''),
      ([None, None, Some (Sqlite3Error ''database is locked'')], ''2024-01-02 00:00:00''),
      ([], ''2024-01-03 00:00:00''),
      ([Some (Sqlite3Error ''unable to open database file'')], ''2024-01-04 00:00:00'')]"

text \<open>The world after a first call on the fresh path, some months later.\<close>

definition later_world :: world where
  "later_world =
     (snd (initializeDatabase example_self example_world))
       \<lparr>faults := [], clock := ''2024-06-01 12:00:00''\<rparr>"

text \<open>A world whose environment sets both variables.\<close>

definition configured_world :: world where
  "configured_world =
     example_world\<lparr>environ := [''DATABASE_PATH'' \<mapsto> ''/var/data/app.db'', ''DB_TIMEOUT'' \<mapsto> ''5'']\<rparr>"

text \<open>A component configured with the name of the database in memory.\<close>

definition memory_self :: DatabaseConnection where
  "memory_self = \<lparr>dbPath = '':memory:'', connectionTimeout = 30\<rparr>"

text \<open>Two calls in a row that meet no fault.\<close>

definition two_runs :: "(exn option list \<times> string) list" where
  "two_runs = [([], ''2024-01-01 00:00:00''), ([], ''2024-01-02 00:00:00'')]"


text \<open>
  The fresh world with a connection open on the default path, and with a connection
  open on the database in memory.
\<close>

definition fresh_connected_world :: world where
  "fresh_connected_world =
     example_world\<lparr>conns := [0 \<mapsto> opened example_self], next_handle := 1\<rparr>"

definition memory_connected_world :: world where
  "memory_connected_world =
     example_world\<lparr>conns := [0 \<mapsto> opened memory_self], next_handle := 1\<rparr>"
section \<open>The engine on the statements of the program\<close>

subsection \<open>One seed row\<close>

lemma build_seed_row:
  "build_row users_columns [''id'', ''name'', ''email'', ''age'', ''department'', ''salary'']
      [VInt k, VText n, VText e, VInt a, VText d, VReal s] now
   = stored_row now [VInt k, VText n, VText e, VInt a, VText d, VReal s]"
  by (simp add: build_row_def build_cell_def default_value_def users_columns_def stored_row_def)

lemma seed_row_checks:
  "0 \<le> a \<Longrightarrow> a \<le> 150 \<Longrightarrow> 0 \<le> s \<Longrightarrow>
   row_checks_ok users_columns (stored_row now [VInt k, VText n, VText e, VInt a, VText d, VReal s])"
  by (simp add: row_checks_ok_def users_columns_def stored_row_def cell_def)

lemma seed_row_conflicts:
  "conflicts users_columns (stored_row now [VInt k, VText n, VText e, VInt a, VText d, VReal s]) old
   \<longleftrightarrow> cell old ''id'' = VInt k \<or> cell old ''email'' = VText e"
  by (simp add: conflicts_def users_columns_def stored_row_def cell_def is_key_def)

lemma insert_seed:
  assumes "db ''users'' = Some t" "columns t = users_columns" "0 \<le> a" "a \<le> 150" "0 \<le> s"
  shows "insert_or_replace ''users'' [''id'', ''name'', ''email'', ''age'', ''department'', ''salary'']
           [VInt k, VText n, VText e, VInt a, VText d, VReal s] now db
       = Inr (db(''users'' \<mapsto> t\<lparr>rows :=
            filter (\<lambda>old. cell old ''id'' \<noteq> VInt k \<and> cell old ''email'' \<noteq> VText e) (rows t)
            @ [stored_row now [VInt k, VText n, VText e, VInt a, VText d, VReal s] ]\<rparr>))"
proof -
  have c: "list_all (\<lambda>c. c \<in> set (map cname users_columns))
             [''id'', ''name'', ''email'', ''age'', ''department'', ''salary'']"
    by (simp add: users_columns_def)
  show ?thesis
    using assms c
    by (simp add: insert_or_replace_def build_seed_row seed_row_checks seed_row_conflicts Let_def)
qed

lemma stored_row_cells:
  "cell (stored_row now [i, n, e, a, d, s]) ''id'' = i"
  "cell (stored_row now [i, n, e, a, d, s]) ''email'' = e"
  "cell (stored_row now [i, n, e, a, d, s]) ''created_at'' = VText now"
  "six_fields (stored_row now [i, n, e, a, d, s]) = [i, n, e, a, d, s]"
  by (simp_all add: stored_row_def cell_def six_fields_def)

subsection \<open>The five statements of executemany\<close>

lemma run_many_seed:
  assumes "db ''users'' = Some t" "columns t = users_columns"
  shows "run_many (INSERT_OR_REPLACE ''users''
                     [''id'', ''name'', ''email'', ''age'', ''department'', ''salary''])
           sampleUsers now db
         = (None, db(''users'' \<mapsto> t\<lparr>rows := seeded now (rows t)\<rparr>))"
proof -
  have f: "filter (\<lambda>x. cell x ''id'' \<noteq> VInt 1 \<and> cell x ''email'' \<noteq> VText ''john@example.com'' \<and>
                       cell x ''id'' \<noteq> VInt 2 \<and> cell x ''email'' \<noteq> VText ''jane@example.com'' \<and>
                       cell x ''id'' \<noteq> VInt 3 \<and> cell x ''email'' \<noteq> VText ''bob@example.com'' \<and>
                       cell x ''id'' \<noteq> VInt 4 \<and> cell x ''email'' \<noteq> VText ''alice@example.com'' \<and>
                       cell x ''id'' \<noteq> VInt 5 \<and> cell x ''email'' \<noteq> VText ''charlie@example.com'')
             (rows t)
        = filter (\<lambda>r. \<not> seed_conflict r) (rows t)"
    by (rule filter_cong) (auto simp: seed_conflict_def seed_ids_def seed_emails_def)
  show ?thesis
    using assms
    by (simp add: sampleUsers_def insert_seed stored_row_cells seeded_def f)
qed

lemma seed_rows_of_seeded:
  "filter (\<lambda>r. cell r ''id'' \<in> set seed_ids) (seeded now old) = map (stored_row now) sampleUsers"
proof -
  have "filter (\<lambda>r. cell r ''id'' \<in> set seed_ids) (filter (\<lambda>r. \<not> seed_conflict r) old) = []"
    by (auto simp: seed_conflict_def filter_empty_conv)
  moreover have "filter (\<lambda>r. cell r ''id'' \<in> set seed_ids) (map (stored_row now) sampleUsers)
                 = map (stored_row now) sampleUsers"
    by (simp add: sampleUsers_def stored_row_cells seed_ids_def)
  ultimately show ?thesis by (simp add: seeded_def)
qed

subsection \<open>The fault script\<close>

lemma engine_fault_eq: "engine_fault w = (next_fault w, tick w)"
  by (simp add: engine_fault_def next_fault_def tick_def split: list.splits)

lemma tick_sel [simp]:
  "files (tick w) = files w" "conns (tick w) = conns w" "logged (tick w) = logged w"
  "clock (tick w) = clock w" "next_handle (tick w) = next_handle w" "environ (tick w) = environ w"
  by (simp_all add: tick_def)

lemma tick_upd [simp]:
  "tick (w\<lparr>files := f\<rparr>) = (tick w)\<lparr>files := f\<rparr>"
  "tick (w\<lparr>conns := c\<rparr>) = (tick w)\<lparr>conns := c\<rparr>"
  "tick (w\<lparr>logged := l\<rparr>) = (tick w)\<lparr>logged := l\<rparr>"
  "tick (w\<lparr>next_handle := n\<rparr>) = (tick w)\<lparr>next_handle := n\<rparr>"
  by (simp_all add: tick_def)

lemma next_fault_upd [simp]:
  "next_fault (w\<lparr>files := f\<rparr>) = next_fault w"
  "next_fault (w\<lparr>conns := c\<rparr>) = next_fault w"
  "next_fault (w\<lparr>logged := l\<rparr>) = next_fault w"
  "next_fault (w\<lparr>next_handle := n\<rparr>) = next_fault w"
  by (simp_all add: next_fault_def)

lemma no_faults: "faults w = [] \<Longrightarrow> next_fault w = None \<and> tick w = w"
  by (simp add: next_fault_def tick_def)

subsection \<open>The calls, one by one\<close>

lemma sqlite3_connect_eq:
  "sqlite3_connect p t w =
     (case next_fault w of
        Some e \<Rightarrow> (Inl e, tick w)
      | None \<Rightarrow> (Inr (next_handle w),
                 (tick w)\<lparr>conns := (conns w)(next_handle w \<mapsto>
                             \<lparr>c_path = p, c_timeout = t, c_row_factory = Tuples,
                              c_private = Map.empty, c_txn = None, c_closed = False\<rparr>),
                           next_handle := Suc (next_handle w)\<rparr>))"
  by (simp add: sqlite3_connect_def engine_fault_eq Let_def split: option.splits)

lemma set_row_factory_connect:
  "set_row_factory (next_handle w) Row
     ((tick w)\<lparr>conns := (conns w)(next_handle w \<mapsto>
                 \<lparr>c_path = dbPath self, c_timeout = connectionTimeout self, c_row_factory = Tuples,
                  c_private = Map.empty, c_txn = None, c_closed = False\<rparr>),
               next_handle := Suc (next_handle w)\<rparr>)
   = (tick w)\<lparr>conns := (conns w)(next_handle w \<mapsto> opened self),
              next_handle := Suc (next_handle w)\<rparr>"
  by (simp add: set_row_factory_def opened_def)

lemma committed_db_tick [simp]: "committed_db (tick w) c = committed_db w c"
  by (simp add: committed_db_def)

lemma createUserTable_view:
  assumes "conns w h = Some c" "\<not> c_closed c" "c_txn c = None"
  shows "createUserTable h w =
     (case next_fault w of
        Some e \<Rightarrow> (Inl e, tick w)
      | None \<Rightarrow> (Inr (), write_db h c
                     ((committed_db w c)(''users'' \<mapsto> users_table (committed_db w c))) (tick w)))"
  using assms
  by (auto simp: createUserTable_def cursor_execute_def engine_fault_eq begin_if_dml_def
      current_db_def store_db_def create_table_def users_table_def Let_def map_upd_triv
      split: option.splits)

lemma createUserTable_eq:
  assumes "conns w h = Some c" "\<not> c_closed c" "c_txn c = None" "\<not> private_path (c_path c)"
  shows "createUserTable h w =
     (case next_fault w of
        Some e \<Rightarrow> (Inl e, tick w)
      | None \<Rightarrow> (Inr (), (tick w)\<lparr>files := (files w)(c_path c :=
                     (files w (c_path c))(''users'' \<mapsto> users_table (files w (c_path c))))\<rparr>))"
  using assms
  by (auto simp: createUserTable_view write_db_def committed_db_def map_upd_triv
      split: option.splits)

lemma connection_commit_eq:
  assumes "conns w h = Some c" "\<not> c_closed c" "c_txn c = Some d" "\<not> private_path (c_path c)"
  shows "connection_commit h w =
     (case next_fault w of
        Some e \<Rightarrow> (Inl e, tick w)
      | None \<Rightarrow> (Inr (), (tick w)\<lparr>files := (files w)(c_path c := d),
                                  conns := (conns w)(h \<mapsto> c\<lparr>c_txn := None\<rparr>)\<rparr>))"
  using assms
  by (auto simp: connection_commit_def engine_fault_eq write_db_def split: option.splits)

lemma insertSampleData_view:
  assumes "conns w h = Some c" "\<not> c_closed c" "c_txn c = None"
    "committed_db w c ''users'' = Some t" "columns t = users_columns"
  shows "insertSampleData h w =
     (case next_fault w of
        Some e \<Rightarrow> (Inl e, tick w)
      | None \<Rightarrow> (Inr (), (tick w)\<lparr>conns := (conns w)(h \<mapsto> c\<lparr>c_txn :=
           Some ((committed_db w c)(''users'' \<mapsto> t\<lparr>rows := seeded (clock w) (rows t)\<rparr>))\<rparr>)\<rparr>))"
  using assms
  by (auto simp: insertSampleData_def cursor_executemany_def engine_fault_eq begin_if_dml_def
      current_db_def store_db_def Let_def run_many_seed split: option.splits)

lemma insertSampleData_eq:
  assumes "conns w h = Some c" "\<not> c_closed c" "c_txn c = None" "\<not> private_path (c_path c)"
    "files w (c_path c) ''users'' = Some t" "columns t = users_columns"
  shows "insertSampleData h w =
     (case next_fault w of
        Some e \<Rightarrow> (Inl e, tick w)
      | None \<Rightarrow> (Inr (), (tick w)\<lparr>conns := (conns w)(h \<mapsto> c\<lparr>c_txn :=
           Some ((files w (c_path c))(''users'' \<mapsto> t\<lparr>rows := seeded (clock w) (rows t)\<rparr>))\<rparr>)\<rparr>))"
proof -
  have d: "committed_db w c = files w (c_path c)" using assms(4) by (simp add: committed_db_def)
  have v: "committed_db w c ''users'' = Some t" using assms(5) by (simp only: d)
  show ?thesis
    using insertSampleData_view [OF assms(1,2,3) v assms(6)] by (simp only: d)
qed

lemma columns_users_table:
  "table_ok w p \<Longrightarrow> \<not> private_path p \<Longrightarrow> columns (users_table (files w p)) = users_columns"
  by (simp add: table_ok_def stored_db_def users_table_def split: option.splits)

lemma files_connection_close [simp]: "files (connection_close h w) = files w"
  by (simp add: connection_close_def split: option.splits)

lemma files_connection_error [simp]: "files (connection_error e w) = files w"
  by (simp add: connection_error_def logging_error_def)

lemma files_logging [simp]:
  "files (logging_error m w) = files w" "files (logging_info m w) = files w"
  by (simp_all add: logging_error_def logging_info_def)

lemma is_open_connection_close: "\<not> is_open (connection_close h w) h"
  by (simp add: is_open_def connection_close_def split: option.splits)

subsection \<open>The whole run\<close>

text \<open>The block of the \<^verbatim>\<open>with\<close> statement on a connection that was just opened.\<close>

lemma body_eq:
  assumes "conns w h = Some (opened self)" "table_ok w (dbPath self)"
    "\<not> private_path (dbPath self)"
  shows "initializeDatabase_body h w =
    (case next_fault w of
       Some e \<Rightarrow> (Inl e, tick w)
     | None \<Rightarrow>
        (case next_fault (tick w) of
           Some e \<Rightarrow> (Inl e, (tick (tick w))\<lparr>files := (files w)(dbPath self :=
                     (files w (dbPath self))(''users'' \<mapsto> users_table (files w (dbPath self))))\<rparr>)
         | None \<Rightarrow>
            (case next_fault (tick (tick w)) of
               Some e \<Rightarrow> (Inl e, (tick (tick (tick w)))\<lparr>files := (files w)(dbPath self :=
                     (files w (dbPath self))(''users'' \<mapsto> users_table (files w (dbPath self)))),
                   conns := (conns w)(h \<mapsto> (opened self)\<lparr>c_txn :=
                      Some ((files w (dbPath self))(''users'' \<mapsto> (users_table (files w (dbPath self)))
                          \<lparr>rows := seeded (clock w) (rows (users_table (files w (dbPath self))))\<rparr>))\<rparr>)\<rparr>)
             | None \<Rightarrow> (Inr True, (tick (tick (tick w)))\<lparr>files := (files w)(dbPath self :=
                      (files w (dbPath self))(''users'' \<mapsto> (users_table (files w (dbPath self)))
                          \<lparr>rows := seeded (clock w) (rows (users_table (files w (dbPath self))))\<rparr>)),
                   conns := (conns w)(h \<mapsto> opened self),
                   logged := logged w @ [INFO ''Database initialized successfully'']\<rparr>))))"
proof -
  have o: "is_open w h" using assms(1) by (simp add: is_open_def opened_def)
  have c1: "c_path (opened self) = dbPath self" "\<not> c_closed (opened self)" "c_txn (opened self) = None"
    by (simp_all add: opened_def)
  have np: "\<not> private_path (c_path (opened self))" using assms(3) c1 by simp
  note ct = columns_users_table [OF assms(2,3)]
  show ?thesis
  proof (cases "next_fault w")
    case (Some e)
    then show ?thesis using assms o c1 np
      by (simp add: initializeDatabase_body_def and_then_def connection_cursor_def createUserTable_eq)
  next
    case None
    note n1 = None
    let ?w2 = "(tick w)\<lparr>files := (files w)(dbPath self :=
                     (files w (dbPath self))(''users'' \<mapsto> users_table (files w (dbPath self))))\<rparr>"
    have cr: "createUserTable h w = (Inr (), ?w2)"
      using assms(1) c1 n1 np by (simp add: createUserTable_eq)
    have cw2: "conns ?w2 h = Some (opened self)" using assms(1) by simp
    have fw2: "files ?w2 (c_path (opened self)) ''users'' = Some (users_table (files w (dbPath self)))"
      using c1 by simp
    have ins: "insertSampleData h ?w2 =
       (case next_fault (tick w) of
        Some e \<Rightarrow> (Inl e, tick ?w2)
      | None \<Rightarrow> (Inr (), (tick ?w2)\<lparr>conns := (conns ?w2)(h \<mapsto> (opened self)\<lparr>c_txn :=
           Some ((files ?w2 (c_path (opened self)))(''users'' \<mapsto> (users_table (files w (dbPath self)))\<lparr>rows := seeded (clock ?w2) (rows (users_table (files w (dbPath self))))\<rparr>))\<rparr>)\<rparr>))"
      using insertSampleData_eq [OF cw2 c1(2) c1(3) np fw2 ct] by (simp split: option.splits)
    show ?thesis
    proof (cases "next_fault (tick w)")
      case (Some e)
      then show ?thesis using n1 o cr ins
        by (simp add: initializeDatabase_body_def and_then_def connection_cursor_def)
    next
      case None
      note n2 = None
      let ?d = "(files w (dbPath self))(''users'' \<mapsto> (users_table (files w (dbPath self)))
                          \<lparr>rows := seeded (clock w) (rows (users_table (files w (dbPath self))))\<rparr>)"
      let ?w3 = "(tick (tick w))\<lparr>files := (files w)(dbPath self :=
                     (files w (dbPath self))(''users'' \<mapsto> users_table (files w (dbPath self)))),
                   conns := (conns w)(h \<mapsto> (opened self)\<lparr>c_txn := Some ?d\<rparr>)\<rparr>"
      have ins2: "insertSampleData h ?w2 = (Inr (), ?w3)"
        using ins n2 c1 by simp
      have cm: "connection_commit h ?w3 =
         (case next_fault (tick (tick w)) of
        Some e \<Rightarrow> (Inl e, tick ?w3)
      | None \<Rightarrow> (Inr (), (tick ?w3)\<lparr>files := (files ?w3)(dbPath self := ?d),
                                  conns := (conns ?w3)(h \<mapsto> opened self)\<rparr>))"
      proof -
        have a: "conns ?w3 h = Some ((opened self)\<lparr>c_txn := Some ?d\<rparr>)" by simp
        have b: "\<not> c_closed ((opened self)\<lparr>c_txn := Some ?d\<rparr>)" using c1 by simp
        have c: "c_txn ((opened self)\<lparr>c_txn := Some ?d\<rparr>) = Some ?d" by simp
        have p: "\<not> private_path (c_path ((opened self)\<lparr>c_txn := Some ?d\<rparr>))" using np by simp
        have r: "(opened self)\<lparr>c_txn := None\<rparr> = opened self" by (simp add: opened_def)
        show ?thesis
          using connection_commit_eq [OF a b c p] c1 by (simp add: r split: option.splits)
      qed
      show ?thesis using n1 n2 o cr ins2 cm
        by (simp add: initializeDatabase_body_def and_then_def connection_cursor_def logging_info_def
            split: option.splits)
    qed
  qed
qed

text \<open>What a run leaves in the files: the seeded table after True; otherwise the files as they were, or with the empty table created.\<close>

lemma initializeDatabase_files:
  assumes "table_ok w (dbPath self)" "\<not> private_path (dbPath self)"
  shows "(fst (initializeDatabase self w) = Inr True
            \<and> files (snd (initializeDatabase self w)) = seeded_files w (dbPath self))
       \<or> (fst (initializeDatabase self w) \<noteq> Inr True
            \<and> (files (snd (initializeDatabase self w)) = files w
               \<or> files (snd (initializeDatabase self w)) = created_files w (dbPath self)))"
proof -
  let ?h = "next_handle w"
  let ?wb = "(tick w)\<lparr>conns := (conns w)(?h \<mapsto> opened self), next_handle := Suc ?h\<rparr>"
  have c: "conns ?wb ?h = Some (opened self)" by simp
  have t: "table_ok ?wb (dbPath self)" using assms by (simp add: table_ok_def stored_db_def)
  note b = body_eq [OF c t assms(2)]
  show ?thesis
    by (simp add: initializeDatabase_def getConnection_def sqlite3_connect_eq set_row_factory_connect b
        created_files_def seeded_files_def
        split: option.splits)
qed

subsection \<open>The rows after a run\<close>

lemma users_table_upd [simp]: "users_table (db(''users'' \<mapsto> t)) = t"
  by (simp add: users_table_def)

lemma initializeDatabase_table_ok:
  assumes "table_ok w (dbPath self)" "\<not> private_path (dbPath self)"
  shows "table_ok (snd (initializeDatabase self w)) (dbPath self)"
  using initializeDatabase_files [OF assms] columns_users_table [OF assms] assms
  by (auto simp: table_ok_def stored_db_def seeded_files_def created_files_def)

lemma initializeDatabase_rows_True:
  assumes "table_ok w (dbPath self)" "\<not> private_path (dbPath self)"
    "fst (initializeDatabase self w) = Inr True"
  shows "users_rows (snd (initializeDatabase self w)) (dbPath self)
         = seeded (clock w) (users_rows w (dbPath self))"
  using initializeDatabase_files [OF assms(1,2)] assms(2,3)
  by (auto simp: users_rows_def stored_db_def seeded_files_def)

lemma initializeDatabase_rows_other:
  assumes "table_ok w (dbPath self)" "\<not> private_path (dbPath self)"
    "fst (initializeDatabase self w) \<noteq> Inr True"
  shows "users_rows (snd (initializeDatabase self w)) (dbPath self) = users_rows w (dbPath self)"
  using initializeDatabase_files [OF assms(1,2)] assms(2,3)
  by (auto simp: users_rows_def stored_db_def created_files_def)

lemma initializeDatabase_fst:
  assumes "table_ok w (dbPath self)" "\<not> private_path (dbPath self)"
  shows "fst (initializeDatabase self w) =
    (case next_fault w of
       Some e \<Rightarrow> if is_sqlite3_error e then Inr False else Inl e
     | None \<Rightarrow>
        (case next_fault (tick w) of
           Some e \<Rightarrow> if is_sqlite3_error e then Inr False else Inl e
         | None \<Rightarrow>
            (case next_fault (tick (tick w)) of
               Some e \<Rightarrow> if is_sqlite3_error e then Inr False else Inl e
             | None \<Rightarrow>
                (case next_fault (tick (tick (tick w))) of
                   Some e \<Rightarrow> if is_sqlite3_error e then Inr False else Inl e
                 | None \<Rightarrow> Inr True))))"
proof -
  let ?h = "next_handle w"
  let ?wb = "(tick w)\<lparr>conns := (conns w)(?h \<mapsto> opened self), next_handle := Suc ?h\<rparr>"
  have c: "conns ?wb ?h = Some (opened self)" by simp
  have t: "table_ok ?wb (dbPath self)" using assms by (simp add: table_ok_def stored_db_def)
  note b = body_eq [OF c t assms(2)]
  show ?thesis
    by (simp add: initializeDatabase_def getConnection_def sqlite3_connect_eq
        set_row_factory_connect b split: option.splits)
qed

lemma initializeDatabase_succeeds:
  assumes "table_ok w (dbPath self)" "\<not> private_path (dbPath self)" "faults w = []"
  shows "fst (initializeDatabase self w) = Inr True"
proof -
  let ?h = "next_handle w"
  let ?wb = "w\<lparr>conns := (conns w)(?h \<mapsto> opened self), next_handle := Suc ?h\<rparr>"
  have n: "next_fault w = None" "tick w = w" using no_faults [OF assms(3)] by simp_all
  have c: "conns ?wb ?h = Some (opened self)" by simp
  have t: "table_ok ?wb (dbPath self)" using assms(1,2) by (simp add: table_ok_def stored_db_def)
  note b = body_eq [OF c t assms(2)]
  show ?thesis
    using n set_row_factory_connect [of w self]
    by (simp add: initializeDatabase_def getConnection_def sqlite3_connect_eq b)
qed

lemma table_ok_env [simp]: "table_ok (w\<lparr>faults := fs, clock := now\<rparr>) p = table_ok w p"
  by (simp add: table_ok_def stored_db_def)

lemma users_rows_env [simp]: "users_rows (w\<lparr>faults := fs, clock := now\<rparr>) p = users_rows w p"
  by (simp add: users_rows_def stored_db_def)

lemma initialize_repeatedly_Cons:
  "initialize_repeatedly self ((fs, now) # envs) w =
     (fst (initializeDatabase self (w\<lparr>faults := fs, clock := now\<rparr>))
        # fst (initialize_repeatedly self envs
                 (snd (initializeDatabase self (w\<lparr>faults := fs, clock := now\<rparr>)))),
      snd (initialize_repeatedly self envs
             (snd (initializeDatabase self (w\<lparr>faults := fs, clock := now\<rparr>)))))"
  by (simp split: prod.splits)

lemma initialize_repeatedly_Nil_iff [simp]:
  "fst (initialize_repeatedly self envs w) = [] \<longleftrightarrow> envs = []"
proof (cases envs)
  case Nil
  then show ?thesis by simp
next
  case (Cons env envs')
  then show ?thesis
    by (cases env) (simp add: initialize_repeatedly_Cons del: initialize_repeatedly.simps(2))
qed

lemma six_fields_seeded:
  "map six_fields (filter (\<lambda>r. cell r ''id'' \<in> set seed_ids) (seeded now old)) = sampleUsers"
  by (simp only: seed_rows_of_seeded) (simp add: sampleUsers_def stored_row_cells)

lemma initialize_repeatedly_six_fields:
  assumes "\<not> private_path (dbPath self)" and "table_ok w (dbPath self)"
    and "Inr True \<in> set (fst (initialize_repeatedly self envs w))
         \<or> map six_fields (seed_rows w (dbPath self)) = sampleUsers"
  shows "map six_fields (seed_rows (snd (initialize_repeatedly self envs w)) (dbPath self))
         = sampleUsers"
  using assms
proof (induction envs arbitrary: w)
  case Nil
  then show ?case by simp
next
  case (Cons env envs)
  obtain fs now where e: "env = (fs, now)" by (cases env)
  let ?w0 = "w\<lparr>faults := fs, clock := now\<rparr>"
  let ?w1 = "snd (initializeDatabase self ?w0)"
  note np = Cons.prems(1)
  have ok0: "table_ok ?w0 (dbPath self)" using Cons.prems(2) by simp
  have ok1: "table_ok ?w1 (dbPath self)" by (rule initializeDatabase_table_ok [OF ok0 np])
  have step: "Inr True \<in> set (fst (initialize_repeatedly self envs ?w1))
         \<or> map six_fields (seed_rows ?w1 (dbPath self)) = sampleUsers"
  proof (cases "fst (initializeDatabase self ?w0) = Inr True")
    case True
    have "users_rows ?w1 (dbPath self) = seeded now (users_rows ?w0 (dbPath self))"
      using initializeDatabase_rows_True [OF ok0 np True] by simp
    then show ?thesis by (simp add: seed_rows_def six_fields_seeded)
  next
    case False
    have "users_rows ?w1 (dbPath self) = users_rows w (dbPath self)"
      using initializeDatabase_rows_other [OF ok0 np False] by simp
    then have "seed_rows ?w1 (dbPath self) = seed_rows w (dbPath self)"
      by (simp add: seed_rows_def)
    then show ?thesis
      using Cons.prems(3) False e
      by (auto simp: initialize_repeatedly_Cons simp del: initialize_repeatedly.simps(2))
  qed
  show ?case
    using Cons.IH [OF np ok1 step] e
    by (simp add: initialize_repeatedly_Cons del: initialize_repeatedly.simps(2))
qed


subsection \<open>A run on a private database\<close>

text \<open>
  With a private name the run works in the database of the connection: the table is
  created and seeded there, no file is written, and the close discards it.
\<close>

lemma body_private:
  assumes "conns w h = Some (opened self)" "private_path (dbPath self)" "faults w = []"
  shows "initializeDatabase_body h w =
     (Inr True, w\<lparr>conns := (conns w)(h \<mapsto> (opened self)\<lparr>c_private :=
                      [''users'' \<mapsto> \<lparr>columns = users_columns, rows = seeded (clock w) []\<rparr>]\<rparr>),
                  logged := logged w @ [INFO ''Database initialized successfully'']\<rparr>)"
proof -
  have n: "next_fault w = None" "tick w = w" using no_faults [OF assms(3)] by simp_all
  have o: "is_open w h" using assms(1) by (simp add: is_open_def opened_def)
  have c1: "c_path (opened self) = dbPath self" "\<not> c_closed (opened self)" "c_txn (opened self) = None"
    "c_private (opened self) = Map.empty"
    by (simp_all add: opened_def)
  let ?c2 = "(opened self)\<lparr>c_private := [''users'' \<mapsto> \<lparr>columns = users_columns, rows = []\<rparr>]\<rparr>"
  let ?w2 = "w\<lparr>conns := (conns w)(h \<mapsto> ?c2)\<rparr>"
  have cr: "createUserTable h w = (Inr (), ?w2)"
    using createUserTable_view [OF assms(1) c1(2,3)] n assms(2) c1
    by (simp add: write_db_def committed_db_def users_table_def)
  have n2: "next_fault ?w2 = None" "tick ?w2 = ?w2"
    using no_faults [of ?w2] assms(3) by simp_all
  have a2: "conns ?w2 h = Some ?c2" "\<not> c_closed ?c2" "c_txn ?c2 = None"
    "committed_db ?w2 ?c2 ''users'' = Some \<lparr>columns = users_columns, rows = []\<rparr>"
    "columns \<lparr>columns = users_columns, rows = []\<rparr> = users_columns"
    using c1 assms(2) by (simp_all add: committed_db_def)
  let ?d = "[''users'' \<mapsto> \<lparr>columns = users_columns, rows = seeded (clock w) []\<rparr>]"
  let ?c3 = "?c2\<lparr>c_txn := Some ?d\<rparr>"
  let ?w3 = "w\<lparr>conns := (conns w)(h \<mapsto> ?c3)\<rparr>"
  have ins: "insertSampleData h ?w2 = (Inr (), ?w3)"
    using insertSampleData_view [OF a2] n2 c1 assms(2) by (simp add: committed_db_def)
  have n3: "next_fault ?w3 = None" "tick ?w3 = ?w3"
    using no_faults [of ?w3] assms(3) by simp_all
  have cm: "connection_commit h ?w3 =
       (Inr (), w\<lparr>conns := (conns w)(h \<mapsto> (opened self)\<lparr>c_private := ?d\<rparr>)\<rparr>)"
    using c1 assms(2) assms(3)
    by (simp add: connection_commit_def engine_fault_eq next_fault_def tick_def write_db_def
        opened_def)
  show ?thesis using n o cr ins cm
    by (simp add: initializeDatabase_body_def and_then_def connection_cursor_def logging_info_def)
qed

lemma initializeDatabase_private:
  assumes "private_path (dbPath self)" "faults w = []"
  shows "fst (initializeDatabase self w) = Inr True"
    and "files (snd (initializeDatabase self w)) = files w"
proof -
  let ?h = "next_handle w"
  let ?wb = "w\<lparr>conns := (conns w)(?h \<mapsto> opened self), next_handle := Suc ?h\<rparr>"
  have n: "next_fault w = None" "tick w = w" using no_faults [OF assms(2)] by simp_all
  have c: "conns ?wb ?h = Some (opened self)" by simp
  have f: "faults ?wb = []" using assms(2) by simp
  note b = body_private [OF c assms(1) f]
  show "fst (initializeDatabase self w) = Inr True"
    using n set_row_factory_connect [of w self]
    by (simp add: initializeDatabase_def getConnection_def sqlite3_connect_eq b)
  show "files (snd (initializeDatabase self w)) = files w"
    using n set_row_factory_connect [of w self]
    by (simp add: initializeDatabase_def getConnection_def sqlite3_connect_eq b
        connection_close_def)
qed

lemma table_ok_private: "private_path p \<Longrightarrow> table_ok w p"
  by (simp add: table_ok_def stored_db_def)

lemma users_rows_private: "private_path p \<Longrightarrow> users_rows w p = []"
  by (simp add: users_rows_def stored_db_def users_table_def)

lemma initializeDatabase_no_fault:
  assumes "table_ok w (dbPath self)" "faults w = []"
  shows "fst (initializeDatabase self w) = Inr True"
proof (cases "private_path (dbPath self)")
  case True
  then show ?thesis by (rule initializeDatabase_private(1)) (fact assms(2))
next
  case False
  show ?thesis by (rule initializeDatabase_succeeds [OF assms(1) False assms(2)])
qed

section \<open>The rows of the users table\<close>

lemma stored_seed_ids:
  "r \<in> set (map (stored_row now) sampleUsers) \<Longrightarrow> cell r ''id'' \<in> set seed_ids"
  by (auto simp: sampleUsers_def seed_ids_def stored_row_cells)

lemma seed_id_stored:
  "i \<in> set seed_ids \<Longrightarrow> \<exists>r \<in> set (map (stored_row now) sampleUsers). cell r ''id'' = i"
  by (auto simp: sampleUsers_def seed_ids_def stored_row_cells)

lemma six_fields_seeds: "map six_fields (map (stored_row now) sampleUsers) = sampleUsers"
  by (simp add: sampleUsers_def stored_row_cells)

lemma created_at_seeds:
  "map (\<lambda>r. cell r ''created_at'') (map (stored_row now) sampleUsers) = replicate 5 (VText now)"
  by (simp add: sampleUsers_def stored_row_cells numeral_eq_Suc)

lemma file_path_examples: "\<not> private_path (dbPath example_self)"
  by (simp add: private_path_def example_self_def)

lemma table_ok_examples:
  "table_ok example_world (dbPath example_self)"
  "table_ok conflicting_world (dbPath example_self)"
  by (simp_all add: table_ok_def stored_db_def example_world_def conflicting_world_def)

text \<open>A second seeding removes no further row: the rows it meets in conflict are the seed rows.\<close>

lemma stored_rows_conflict:
  "filter (\<lambda>r. \<not> seed_conflict r) (map (stored_row now) sampleUsers) = []"
  using stored_seed_ids [of _ now] by (auto simp: filter_empty_conv seed_conflict_def)

lemma filter_seeded:
  "filter (\<lambda>r. \<not> seed_conflict r) (seeded now old) = filter (\<lambda>r. \<not> seed_conflict r) old"
  by (simp add: seeded_def stored_rows_conflict)

lemma six_fields_of_seeded:
  "map six_fields (seeded now old)
   = map six_fields (filter (\<lambda>r. \<not> seed_conflict r) old) @ sampleUsers"
  using six_fields_seeds [of now] by (simp add: seeded_def)

text \<open>Successive calls that meet no fault.\<close>

lemma initialize_repeatedly_results:
  assumes "\<not> private_path (dbPath self)" and "table_ok w (dbPath self)"
    and "list_all (\<lambda>env. fst env = []) envs"
  shows "list_all (\<lambda>r. r = Inr True) (fst (initialize_repeatedly self envs w))"
  using assms
proof (induction envs arbitrary: w)
  case Nil
  then show ?case by simp
next
  case (Cons env envs)
  obtain fs now where e: "env = (fs, now)" by (cases env)
  have fs: "fs = []" using Cons.prems(3) e by simp
  let ?w0 = "w\<lparr>faults := fs, clock := now\<rparr>"
  let ?w1 = "snd (initializeDatabase self ?w0)"
  note np = Cons.prems(1)
  have ok0: "table_ok ?w0 (dbPath self)" using Cons.prems(2) by simp
  have ok1: "table_ok ?w1 (dbPath self)" by (rule initializeDatabase_table_ok [OF ok0 np])
  have r: "fst (initializeDatabase self ?w0) = Inr True"
    by (rule initializeDatabase_succeeds [OF ok0 np]) (simp add: fs)
  have rest: "list_all (\<lambda>env. fst env = []) envs" using Cons.prems(3) by simp
  show ?case
    using Cons.IH [OF np ok1 rest] r e
    by (simp add: initialize_repeatedly_Cons del: initialize_repeatedly.simps(2))
qed

lemma initialize_repeatedly_rows:
  assumes "\<not> private_path (dbPath self)" and "table_ok w (dbPath self)"
    and "list_all (\<lambda>env. fst env = []) envs" and "envs \<noteq> []"
  shows "map six_fields (users_rows (snd (initialize_repeatedly self envs w)) (dbPath self))
         = map six_fields (filter (\<lambda>r. \<not> seed_conflict r) (users_rows w (dbPath self)))
           @ sampleUsers"
  using assms
proof (induction envs arbitrary: w)
  case Nil
  then show ?case by simp
next
  case (Cons env envs)
  obtain fs now where e: "env = (fs, now)" by (cases env)
  have fs: "fs = []" using Cons.prems(3) e by simp
  let ?w0 = "w\<lparr>faults := fs, clock := now\<rparr>"
  let ?w1 = "snd (initializeDatabase self ?w0)"
  note np = Cons.prems(1)
  have ok0: "table_ok ?w0 (dbPath self)" using Cons.prems(2) by simp
  have ok1: "table_ok ?w1 (dbPath self)" by (rule initializeDatabase_table_ok [OF ok0 np])
  have r: "fst (initializeDatabase self ?w0) = Inr True"
    by (rule initializeDatabase_succeeds [OF ok0 np]) (simp add: fs)
  have rows1: "users_rows ?w1 (dbPath self) = seeded now (users_rows w (dbPath self))"
    using initializeDatabase_rows_True [OF ok0 np r] by simp
  have rest: "list_all (\<lambda>env. fst env = []) envs" using Cons.prems(3) by simp
  show ?case
  proof (cases "envs = []")
    case True
    then show ?thesis using e rows1
      by (simp add: six_fields_of_seeded initialize_repeatedly_Cons
          del: initialize_repeatedly.simps(2))
  next
    case False
    have "map six_fields (users_rows (snd (initialize_repeatedly self envs ?w1)) (dbPath self))
         = map six_fields (filter (\<lambda>r. \<not> seed_conflict r) (users_rows ?w1 (dbPath self)))
           @ sampleUsers"
      by (rule Cons.IH [OF np ok1 rest False])
    then show ?thesis
      using e
      by (simp add: rows1 filter_seeded initialize_repeatedly_Cons
          del: initialize_repeatedly.simps(2))
  qed
qed
section \<open>The constructor\<close>

text \<open>
  C9. When DB_TIMEOUT is set to a string that \<^verbatim>\<open>int()\<close> does not parse, the constructor
  raises ValueError: no component is returned, so no operation can be called on it, and
  the world is as before. Construction is not total over the environments.
\<close>

theorem init_invalid_timeout:
  assumes "environ w ''DB_TIMEOUT'' = Some s" and "parse_signed (strip s) = None"
  shows "\<exists>m. init w = (Inl (ValueError m), w)"
  using assms by (simp add: init_def getenv_def py_int_def)

theorem init_invalid_timeout_witness:
  "environ bad_timeout_world ''DB_TIMEOUT'' = Some ''thirty''
   \<and> parse_signed (strip ''thirty'') = None
   \<and> (\<exists>m. init bad_timeout_world = (Inl (ValueError m), bad_timeout_world))"
proof -
  have e: "environ bad_timeout_world ''DB_TIMEOUT'' = Some ''thirty''"
    by (simp add: bad_timeout_world_def example_world_def)
  have p: "parse_signed (strip ''thirty'') = None"
    by (simp add: parse_signed_def parse_literal_def strip_def is_space_def is_digit_def)
  show ?thesis using e p init_invalid_timeout [OF e p] by simp
qed

section \<open>The scoped connection\<close>

text \<open>
  C5. When the open raises a storage-engine error, \<^verbatim>\<open>getConnection\<close> writes the error
  to the log and raises the same error to its caller: the block of the caller does not
  run and nothing is returned in the error's place.
\<close>

theorem getConnection_open_error:
  assumes "sqlite3_connect (dbPath self) (connectionTimeout self) w = (Inl (Sqlite3Error m), w1)"
  shows "getConnection self body w =
           (Inl (Sqlite3Error m),
            w1\<lparr>logged := logged w1 @ [ERROR (''Database connection error: '' @ m)]\<rparr>)"
  using assms by (simp add: getConnection_def connection_error_def logging_error_def)

theorem getConnection_open_error_witness:
  "sqlite3_connect (dbPath example_self) (connectionTimeout example_self) unopenable_world
     = (Inl (Sqlite3Error ''unable to open database file''), example_world)
   \<and> getConnection example_self initializeDatabase_body unopenable_world
     = (Inl (Sqlite3Error ''unable to open database file''),
        example_world\<lparr>logged :=
          [ERROR ''Database connection error: unable to open database file'']\<rparr>)"
proof -
  have h: "sqlite3_connect (dbPath example_self) (connectionTimeout example_self) unopenable_world
     = (Inl (Sqlite3Error ''unable to open database file''), example_world)"
    by (simp add: sqlite3_connect_def engine_fault_def unopenable_world_def example_world_def)
  show ?thesis
    using h getConnection_open_error [OF h, of initializeDatabase_body]
    by (simp add: example_world_def)
qed


section \<open>Convergence to the seed rows\<close>

text \<open>
  C2. The database is a file (DATABASE_PATH is the path of the storage file) that has no
  users table, as a fresh path has, or the users table of the DDL with any rows. Take
  any number n \<ge> 1 of successive calls of \<^verbatim>\<open>initializeDatabase\<close>, each at its own clock.
  When the storage engine raises no error in these calls, every one of them returns True
  and afterwards the rows with ids 1 to 5 are exactly the five seed records in their six
  fields, for every n; and the whole table, read in these six fields, is the same after
  the n calls as after the first call alone. The five records are there also when some of
  the calls meet errors, as soon as one call has returned True.
\<close>

theorem initialize_seed_convergence:
  assumes "\<not> private_path (dbPath self)" and "table_ok w (dbPath self)"
    and "envs \<noteq> []" and "initialize_repeatedly self envs w = (rs, w')"
  shows "(list_all (\<lambda>env. fst env = []) envs \<longrightarrow>
            list_all (\<lambda>r. r = Inr True) rs
          \<and> map six_fields (users_rows w' (dbPath self))
              = map six_fields
                  (users_rows (snd (initialize_repeatedly self [hd envs] w)) (dbPath self)))
       \<and> (list_all (\<lambda>env. fst env = []) envs \<or> Inr True \<in> set rs \<longrightarrow>
            map six_fields (seed_rows w' (dbPath self)) =
     [ [VInt 1, VText ''John Doe'', VText ''john@example.com'', VInt 30, VText ''IT'', VReal 75000],
      [VInt 2, VText ''Jane Smith'', VText ''jane@example.com'', VInt 28, VText ''HR'', VReal 65000],
      [VInt 3, VText ''Bob Johnson'', VText ''bob@example.com'', VInt 35, VText ''Finance'', VReal 80000],
      [VInt 4, VText ''Alice Brown'', VText ''alice@example.com'', VInt 32, VText ''IT'', VReal 78000],
      [VInt 5, VText ''Charlie Davis'', VText ''charlie@example.com'', VInt 29, VText ''Marketing'',
       VReal 70000] ])"
proof -
  have rs: "rs = fst (initialize_repeatedly self envs w)"
    and w': "w' = snd (initialize_repeatedly self envs w)"
    using assms(4) by simp_all
  have results: "list_all (\<lambda>r. r = Inr True) rs"
    if a: "list_all (\<lambda>env. fst env = []) envs"
    unfolding rs by (rule initialize_repeatedly_results [OF assms(1,2) a])
  have once: "map six_fields (users_rows w' (dbPath self))
              = map six_fields
                  (users_rows (snd (initialize_repeatedly self [hd envs] w)) (dbPath self))"
    if a: "list_all (\<lambda>env. fst env = []) envs"
  proof -
    have h: "list_all (\<lambda>env. fst env = []) [hd envs]" using a assms(3) by (cases envs) simp_all
    have n: "[hd envs] \<noteq> []" by simp
    show ?thesis
      unfolding w'
      by (simp only: initialize_repeatedly_rows [OF assms(1,2) a assms(3)]
          initialize_repeatedly_rows [OF assms(1,2) h n])
  qed
  have some: "Inr True \<in> set rs" if a: "list_all (\<lambda>env. fst env = []) envs"
  proof -
    have "rs \<noteq> []" using assms(3) by (simp add: rs initialize_repeatedly_Nil_iff)
    then show ?thesis using results [OF a] by (cases rs) simp_all
  qed
  have seeds: "map six_fields (seed_rows w' (dbPath self)) = sampleUsers"
    if a: "Inr True \<in> set rs"
  proof -
    have l: "Inr True \<in> set (fst (initialize_repeatedly self envs w))
             \<or> map six_fields (seed_rows w (dbPath self)) = sampleUsers"
      using a rs by simp
    show ?thesis
      using initialize_repeatedly_six_fields [OF assms(1,2) l] w' by simp
  qed
  have lit: "sampleUsers =
     [ [VInt 1, VText ''John Doe'', VText ''john@example.com'', VInt 30, VText ''IT'', VReal 75000],
      [VInt 2, VText ''Jane Smith'', VText ''jane@example.com'', VInt 28, VText ''HR'', VReal 65000],
      [VInt 3, VText ''Bob Johnson'', VText ''bob@example.com'', VInt 35, VText ''Finance'', VReal 80000],
      [VInt 4, VText ''Alice Brown'', VText ''alice@example.com'', VInt 32, VText ''IT'', VReal 78000],
      [VInt 5, VText ''Charlie Davis'', VText ''charlie@example.com'', VInt 29, VText ''Marketing'',
       VReal 70000] ]"
    by (simp add: sampleUsers_def)
  show ?thesis
    using results once some seeds unfolding lit [symmetric] by blast
qed

lemma four_runs_results:
  "fst (initialize_repeatedly example_self four_runs conflicting_world)
   = [Inr True, Inr False, Inr True, Inr False]"
proof -
  let ?w0 = "conflicting_world\<lparr>faults := [], clock := ''2024-01-01 00:00:00''\<rparr>"
  let ?w1 = "snd (initializeDatabase example_self ?w0)"
  let ?w1' = "?w1\<lparr>faults := [None, None, Some (Sqlite3Error ''database is locked'')],
                  clock := ''2024-01-02 00:00:00''\<rparr>"
  let ?w2 = "snd (initializeDatabase example_self ?w1')"
  let ?w2' = "?w2\<lparr>faults := [], clock := ''2024-01-03 00:00:00''\<rparr>"
  let ?w3 = "snd (initializeDatabase example_self ?w2')"
  let ?w3' = "?w3\<lparr>faults := [Some (Sqlite3Error ''unable to open database file'')],
                  clock := ''2024-01-04 00:00:00''\<rparr>"
  note np = file_path_examples
  have ok0: "table_ok ?w0 (dbPath example_self)" by (simp add: table_ok_examples)
  have r1: "fst (initializeDatabase example_self ?w0) = Inr True"
    by (rule initializeDatabase_succeeds [OF ok0 np]) simp
  have ok1: "table_ok ?w1' (dbPath example_self)"
    using initializeDatabase_table_ok [OF ok0 np] by simp
  have r2: "fst (initializeDatabase example_self ?w1') = Inr False"
    by (simp add: initializeDatabase_fst [OF ok1 np] next_fault_def tick_def)
  have ok2: "table_ok ?w2' (dbPath example_self)"
    using initializeDatabase_table_ok [OF ok1 np] by simp
  have r3: "fst (initializeDatabase example_self ?w2') = Inr True"
    by (rule initializeDatabase_succeeds [OF ok2 np]) simp
  have ok3: "table_ok ?w3' (dbPath example_self)"
    using initializeDatabase_table_ok [OF ok2 np] by simp
  have r4: "fst (initializeDatabase example_self ?w3') = Inr False"
    by (simp add: initializeDatabase_fst [OF ok3 np] next_fault_def)
  show ?thesis
    using r1 r2 r3 r4
    by (simp add: four_runs_def initialize_repeatedly_Cons del: initialize_repeatedly.simps(2))
qed

text \<open>
  Two calls without fault on a fresh path, and four calls, two of them failing, on a
  file that holds other rows.
\<close>

theorem initialize_seed_convergence_witness:
  "\<not> private_path (dbPath example_self)
   \<and> files example_world (dbPath example_self) ''users'' = None
   \<and> table_ok example_world (dbPath example_self)
   \<and> list_all (\<lambda>env. fst env = []) two_runs
   \<and> fst (initialize_repeatedly example_self two_runs example_world) = [Inr True, Inr True]
   \<and> map six_fields
        (seed_rows (snd (initialize_repeatedly example_self two_runs example_world))
           (dbPath example_self)) =
     [ [VInt 1, VText ''John Doe'', VText ''john@example.com'', VInt 30, VText ''IT'', VReal 75000],
      [VInt 2, VText ''Jane Smith'', VText ''jane@example.com'', VInt 28, VText ''HR'', VReal 65000],
      [VInt 3, VText ''Bob Johnson'', VText ''bob@example.com'', VInt 35, VText ''Finance'', VReal 80000],
      [VInt 4, VText ''Alice Brown'', VText ''alice@example.com'', VInt 32, VText ''IT'', VReal 78000],
      [VInt 5, VText ''Charlie Davis'', VText ''charlie@example.com'', VInt 29, VText ''Marketing'',
       VReal 70000] ]
   \<and> map six_fields
        (users_rows (snd (initialize_repeatedly example_self two_runs example_world))
           (dbPath example_self))
     = map six_fields
        (users_rows (snd (initialize_repeatedly example_self [hd two_runs] example_world))
           (dbPath example_self))
   \<and> table_ok conflicting_world (dbPath example_self)
   \<and> fst (initialize_repeatedly example_self four_runs conflicting_world)
       = [Inr True, Inr False, Inr True, Inr False]
   \<and> map six_fields
        (seed_rows (snd (initialize_repeatedly example_self four_runs conflicting_world))
           (dbPath example_self)) =
     [ [VInt 1, VText ''John Doe'', VText ''john@example.com'', VInt 30, VText ''IT'', VReal 75000],
      [VInt 2, VText ''Jane Smith'', VText ''jane@example.com'', VInt 28, VText ''HR'', VReal 65000],
      [VInt 3, VText ''Bob Johnson'', VText ''bob@example.com'', VInt 35, VText ''Finance'', VReal 80000],
      [VInt 4, VText ''Alice Brown'', VText ''alice@example.com'', VInt 32, VText ''IT'', VReal 78000],
      [VInt 5, VText ''Charlie Davis'', VText ''charlie@example.com'', VInt 29, VText ''Marketing'',
       VReal 70000] ]"
proof -
  note np = file_path_examples
  have fresh: "files example_world (dbPath example_self) ''users'' = None"
    by (simp add: example_world_def)
  have a: "table_ok example_world (dbPath example_self)" by (rule table_ok_examples)
  have n: "two_runs \<noteq> []" by (simp add: two_runs_def)
  have ff: "list_all (\<lambda>env. fst env = []) two_runs" by (simp add: two_runs_def)
  have c: "initialize_repeatedly example_self two_runs example_world
           = (fst (initialize_repeatedly example_self two_runs example_world),
              snd (initialize_repeatedly example_self two_runs example_world))"
    by simp
  have len: "length (fst (initialize_repeatedly example_self envs w)) = length envs" for envs w
    by (induction envs arbitrary: w)
       (auto simp: initialize_repeatedly_Cons simp del: initialize_repeatedly.simps(2))
  have two: "rs = [Inr True, Inr True]"
    if "length rs = 2" "list_all (\<lambda>r. r = Inr True) rs" for rs :: "(exn + bool) list"
    using that by (cases rs; cases "tl rs") (auto simp: length_Suc_conv)
  have l2: "length (fst (initialize_repeatedly example_self two_runs example_world)) = 2"
    by (simp add: len) (simp add: two_runs_def)
  have b: "table_ok conflicting_world (dbPath example_self)" by (rule table_ok_examples)
  have n4: "four_runs \<noteq> []" by (simp add: four_runs_def)
  have c4: "initialize_repeatedly example_self four_runs conflicting_world
           = (fst (initialize_repeatedly example_self four_runs conflicting_world),
              snd (initialize_repeatedly example_self four_runs conflicting_world))"
    by simp
  have d4: "Inr True \<in> set (fst (initialize_repeatedly example_self four_runs conflicting_world))"
    by (simp add: four_runs_results)
  show ?thesis
    using np fresh a ff b four_runs_results d4 two [OF l2]
      initialize_seed_convergence [OF np a n c]
      initialize_seed_convergence [OF np b n4 c4]
    by simp
qed

text \<open>
  C7, as amended. A run of \<^verbatim>\<open>initializeDatabase\<close> on a file with the users table of the
  DDL (or none) keeps every row whose id is outside 1 to 5 and whose email is not the
  email of a seed row, as it is; a row with an id from 1 to 5 is still there under its id
  (as it was after a run that does not return True, overwritten after one that does);
  a run that does not return True keeps every row. The one deletion: a run that returns
  True removes a row with another id that holds the email of a seed row, because email is
  UNIQUE and REPLACE resolves that conflict by deleting the stored row.
\<close>

theorem initialize_keeps_rows:
  assumes "table_ok w (dbPath self)" and "initializeDatabase self w = (r, w')"
    and "old \<in> set (users_rows w (dbPath self))"
  shows "(cell old ''id'' \<in> set seed_ids \<longrightarrow>
            (\<exists>new \<in> set (users_rows w' (dbPath self)). cell new ''id'' = cell old ''id''))
       \<and> (cell old ''id'' \<notin> set seed_ids \<and> cell old ''email'' \<notin> set seed_emails \<longrightarrow>
            old \<in> set (users_rows w' (dbPath self)))
       \<and> (r \<noteq> Inr True \<longrightarrow> old \<in> set (users_rows w' (dbPath self)))
       \<and> (r = Inr True \<and> cell old ''id'' \<notin> set seed_ids \<and> cell old ''email'' \<in> set seed_emails \<longrightarrow>
            old \<notin> set (users_rows w' (dbPath self)))"
proof -
  have np: "\<not> private_path (dbPath self)"
    using assms(3) by (auto simp: users_rows_private)
  show ?thesis
  proof (cases "r = Inr True")
  case True
  have "fst (initializeDatabase self w) = Inr True" using assms(2) True by simp
  then have rows: "users_rows w' (dbPath self) = seeded (clock w) (users_rows w (dbPath self))"
    using initializeDatabase_rows_True [OF assms(1) np] assms(2) by simp
  have a: "cell old ''id'' \<in> set seed_ids \<longrightarrow>
            (\<exists>new \<in> set (users_rows w' (dbPath self)). cell new ''id'' = cell old ''id'')"
    using seed_id_stored [of "cell old ''id''" "clock w"] by (auto simp: rows seeded_def)
  have b: "cell old ''id'' \<notin> set seed_ids \<and> cell old ''email'' \<notin> set seed_emails \<longrightarrow>
            old \<in> set (users_rows w' (dbPath self))"
    using assms(3) by (simp add: rows seeded_def seed_conflict_def)
  have d: "cell old ''id'' \<notin> set seed_ids \<and> cell old ''email'' \<in> set seed_emails \<longrightarrow>
            old \<notin> set (users_rows w' (dbPath self))"
    using stored_seed_ids [of old "clock w"] by (auto simp: rows seeded_def seed_conflict_def)
  show ?thesis using True a b d by simp
next
  case False
  have "fst (initializeDatabase self w) \<noteq> Inr True" using assms(2) False by simp
  then have rows: "users_rows w' (dbPath self) = users_rows w (dbPath self)"
    using initializeDatabase_rows_other [OF assms(1) np] assms(2) by simp
  show ?thesis using False assms(3) by (auto simp: rows)
  qed
qed

lemma conflicting_world_run:
  "fst (initializeDatabase example_self conflicting_world) = Inr True"
  "users_rows conflicting_world (dbPath example_self) = [old_row, eve_row, frank_row]"
  "users_rows (snd (initializeDatabase example_self conflicting_world)) (dbPath example_self)
   = frank_row # map (stored_row ''2024-01-01 00:00:00'') sampleUsers"
proof -
  show r: "fst (initializeDatabase example_self conflicting_world) = Inr True"
    by (rule initializeDatabase_succeeds [OF table_ok_examples(2) file_path_examples])
       (simp add: conflicting_world_def example_world_def)
  show u: "users_rows conflicting_world (dbPath example_self) = [old_row, eve_row, frank_row]"
    using file_path_examples
    by (simp add: users_rows_def stored_db_def conflicting_world_def example_world_def)
  have c: "clock conflicting_world = ''2024-01-01 00:00:00''"
    by (simp add: conflicting_world_def example_world_def)
  have s: "seed_conflict old_row" "seed_conflict eve_row" "\<not> seed_conflict frank_row"
    by (simp_all add: seed_conflict_def seed_ids_def seed_emails_def cell_def
        old_row_def eve_row_def frank_row_def)
  show "users_rows (snd (initializeDatabase example_self conflicting_world)) (dbPath example_self)
   = frank_row # map (stored_row ''2024-01-01 00:00:00'') sampleUsers"
    using initializeDatabase_rows_True [OF table_ok_examples(2) file_path_examples r] u c s
    by (simp add: seeded_def)
qed

lemma example_row_cells:
  "cell old_row ''id'' = VInt 1" "cell eve_row ''id'' = VInt 6" "cell frank_row ''id'' = VInt 7"
  "cell old_row ''email'' = VText ''old@example.com''"
  "cell eve_row ''email'' = VText ''john@example.com''"
  "cell frank_row ''email'' = VText ''frank@example.com''"
  by (simp_all add: cell_def old_row_def eve_row_def frank_row_def)

theorem initialize_keeps_rows_witness:
  "table_ok conflicting_world (dbPath example_self)
   \<and> frank_row \<in> set (users_rows conflicting_world (dbPath example_self))
   \<and> cell frank_row ''id'' \<notin> set seed_ids \<and> cell frank_row ''email'' \<notin> set seed_emails
   \<and> frank_row \<in> set (users_rows (snd (initializeDatabase example_self conflicting_world))
                          (dbPath example_self))
   \<and> old_row \<in> set (users_rows conflicting_world (dbPath example_self))
   \<and> cell old_row ''id'' \<in> set seed_ids
   \<and> (\<exists>new \<in> set (users_rows (snd (initializeDatabase example_self conflicting_world))
                       (dbPath example_self)). cell new ''id'' = cell old_row ''id'')
   \<and> eve_row \<in> set (users_rows conflicting_world (dbPath example_self))
   \<and> fst (initializeDatabase example_self conflicting_world) = Inr True
   \<and> cell eve_row ''id'' \<notin> set seed_ids \<and> cell eve_row ''email'' \<in> set seed_emails
   \<and> eve_row \<notin> set (users_rows (snd (initializeDatabase example_self conflicting_world))
                          (dbPath example_self))"
proof -
  have ok: "table_ok conflicting_world (dbPath example_self)" by (rule table_ok_examples)
  have run: "initializeDatabase example_self conflicting_world
             = (fst (initializeDatabase example_self conflicting_world),
                snd (initializeDatabase example_self conflicting_world))"
    by simp
  have f: "frank_row \<in> set (users_rows conflicting_world (dbPath example_self))"
    and o: "old_row \<in> set (users_rows conflicting_world (dbPath example_self))"
    and e: "eve_row \<in> set (users_rows conflicting_world (dbPath example_self))"
    by (simp_all add: conflicting_world_run)
  have ids: "cell frank_row ''id'' \<notin> set seed_ids" "cell frank_row ''email'' \<notin> set seed_emails"
    "cell old_row ''id'' \<in> set seed_ids"
    "cell eve_row ''id'' \<notin> set seed_ids" "cell eve_row ''email'' \<in> set seed_emails"
    by (simp_all add: example_row_cells seed_ids_def seed_emails_def)
  show ?thesis
    using ok f o e ids conflicting_world_run(1)
      initialize_keeps_rows [OF ok run f]
      initialize_keeps_rows [OF ok run o]
      initialize_keeps_rows [OF ok run e]
    by simp
qed

text \<open>
  The claim as the specification states it, that every row present before a run is
  present after it whatever its email, fails on the row with id 6 that holds the email
  of the first seed row.
\<close>

theorem initialize_deletes_row_counterexample:
  "eve_row \<in> set (users_rows conflicting_world (dbPath example_self))
   \<and> cell eve_row ''id'' = VInt 6
   \<and> eve_row \<notin> set (users_rows (snd (initializeDatabase example_self conflicting_world))
                          (dbPath example_self))"
  by (simp add: conflicting_world_run example_row_cells)
     (simp add: sampleUsers_def stored_row_def eve_row_def frank_row_def)

text \<open>
  C10. The database is a file that has no users table or the users table of the DDL. A
  run that returns True stores the rows 1 to 5 anew: their created_at is the clock of
  that run, whatever it was before, and their other six fields are the seed values. So
  created_at is not kept across repeated calls. (The clock is read once in a run: the
  five rows of one \<^verbatim>\<open>executemany\<close> get the same timestamp.)
\<close>

theorem initialize_resets_created_at:
  assumes "\<not> private_path (dbPath self)" and "table_ok w (dbPath self)"
    and "initializeDatabase self w = (Inr True, w')"
  shows "map (\<lambda>r. cell r ''created_at'') (seed_rows w' (dbPath self)) = replicate 5 (VText (clock w))
       \<and> map six_fields (seed_rows w' (dbPath self)) =
     [ [VInt 1, VText ''John Doe'', VText ''john@example.com'', VInt 30, VText ''IT'', VReal 75000],
      [VInt 2, VText ''Jane Smith'', VText ''jane@example.com'', VInt 28, VText ''HR'', VReal 65000],
      [VInt 3, VText ''Bob Johnson'', VText ''bob@example.com'', VInt 35, VText ''Finance'', VReal 80000],
      [VInt 4, VText ''Alice Brown'', VText ''alice@example.com'', VInt 32, VText ''IT'', VReal 78000],
      [VInt 5, VText ''Charlie Davis'', VText ''charlie@example.com'', VInt 29, VText ''Marketing'',
       VReal 70000] ]"
proof -
  have "fst (initializeDatabase self w) = Inr True" using assms(3) by simp
  then have "users_rows w' (dbPath self) = seeded (clock w) (users_rows w (dbPath self))"
    using initializeDatabase_rows_True [OF assms(2,1)] assms(3) by simp
  then have s: "seed_rows w' (dbPath self) = map (stored_row (clock w)) sampleUsers"
    by (simp add: seed_rows_def seed_rows_of_seeded)
  have "map six_fields (seed_rows w' (dbPath self)) = sampleUsers"
    by (simp only: s six_fields_seeds)
  then show ?thesis
    by (simp only: s created_at_seeds) (simp add: sampleUsers_def)
qed

theorem initialize_resets_created_at_witness:
  "\<not> private_path (dbPath example_self)
   \<and> table_ok example_world (dbPath example_self)
   \<and> fst (initializeDatabase example_self example_world) = Inr True
   \<and> map (\<lambda>r. cell r ''created_at'') (seed_rows later_world (dbPath example_self))
       = replicate 5 (VText ''2024-01-01 00:00:00'')
   \<and> table_ok later_world (dbPath example_self)
   \<and> fst (initializeDatabase example_self later_world) = Inr True
   \<and> map (\<lambda>r. cell r ''created_at'')
        (seed_rows (snd (initializeDatabase example_self later_world)) (dbPath example_self))
       = replicate 5 (VText ''2024-06-01 12:00:00'')"
proof -
  note np = file_path_examples
  have ok1: "table_ok example_world (dbPath example_self)" by (rule table_ok_examples)
  have r1: "fst (initializeDatabase example_self example_world) = Inr True"
    by (rule initializeDatabase_succeeds [OF ok1 np]) (simp add: example_world_def)
  have run1: "initializeDatabase example_self example_world
              = (Inr True, snd (initializeDatabase example_self example_world))"
    using r1 by (metis prod.collapse)
  have ok2: "table_ok later_world (dbPath example_self)"
    using initializeDatabase_table_ok [OF ok1 np] by (simp add: later_world_def)
  have r2: "fst (initializeDatabase example_self later_world) = Inr True"
    by (rule initializeDatabase_succeeds [OF ok2 np]) (simp add: later_world_def)
  have run2: "initializeDatabase example_self later_world
              = (Inr True, snd (initializeDatabase example_self later_world))"
    using r2 by (metis prod.collapse)
  have s: "seed_rows later_world (dbPath example_self)
           = seed_rows (snd (initializeDatabase example_self example_world)) (dbPath example_self)"
    by (simp add: later_world_def seed_rows_def users_rows_def stored_db_def)
  have c: "clock example_world = ''2024-01-01 00:00:00''" "clock later_world = ''2024-06-01 12:00:00''"
    by (simp_all add: example_world_def later_world_def)
  show ?thesis
    using np ok1 r1 ok2 r2 c
      initialize_resets_created_at [OF np ok1 run1]
      initialize_resets_created_at [OF np ok2 run2]
    by (simp add: s)
qed


section \<open>The seed step\<close>

lemma select_users_no_txn:
  "conns w h = Some c \<Longrightarrow> c_txn c = None \<Longrightarrow>
   select_users w h = rows (users_table (committed_db w c))"
  by (simp add: select_users_def current_db_def)

lemma table_seen_no_txn:
  "conns w h = Some c \<Longrightarrow> c_txn c = None \<Longrightarrow> table_seen w h = committed_db w c ''users''"
  by (simp add: table_seen_def current_db_def)

lemma not_seed_conflict:
  "(\<lambda>r. \<not> seed_conflict r)
   = (\<lambda>r. cell r ''id'' \<notin> set seed_ids \<and> cell r ''email'' \<notin> set seed_emails)"
  by (simp add: seed_conflict_def fun_eq_iff)

text \<open>
  C3, as amended. On an open cursor outside a transaction that sees the users table of
  the DDL (in the file of its connection, or in its private database),
  \<^verbatim>\<open>_insertSampleData\<close> stores exactly the five seed rows, with created_at set to the
  clock, and replaces on conflict on the primary key id and on the UNIQUE column email:
  a stored row whose id is the id of a seed row or whose email is the email of a seed
  row is removed, every other row stays as it is and where it is. The statements work in
  the connection's transaction; the files are untouched until commit.
\<close>

theorem insertSampleData_effect:
  assumes "conns w cursor = Some c" and "\<not> c_closed c" and "c_txn c = None"
    and "next_fault w = None"
    and "table_seen w cursor = Some t" and "columns t = users_columns"
  shows "\<exists>w'. insertSampleData cursor w = (Inr (), w')
     \<and> files w' = files w
     \<and> select_users w' cursor =
         filter (\<lambda>r. cell r ''id'' \<notin> set seed_ids \<and> cell r ''email'' \<notin> set seed_emails)
           (select_users w cursor)
         @ [ [(''id'', VInt 1), (''name'', VText ''John Doe''), (''email'', VText ''john@example.com''),
             (''age'', VInt 30), (''department'', VText ''IT''), (''salary'', VReal 75000),
             (''created_at'', VText (clock w))],
            [(''id'', VInt 2), (''name'', VText ''Jane Smith''), (''email'', VText ''jane@example.com''),
             (''age'', VInt 28), (''department'', VText ''HR''), (''salary'', VReal 65000),
             (''created_at'', VText (clock w))],
            [(''id'', VInt 3), (''name'', VText ''Bob Johnson''), (''email'', VText ''bob@example.com''),
             (''age'', VInt 35), (''department'', VText ''Finance''), (''salary'', VReal 80000),
             (''created_at'', VText (clock w))],
            [(''id'', VInt 4), (''name'', VText ''Alice Brown''), (''email'', VText ''alice@example.com''),
             (''age'', VInt 32), (''department'', VText ''IT''), (''salary'', VReal 78000),
             (''created_at'', VText (clock w))],
            [(''id'', VInt 5), (''name'', VText ''Charlie Davis''),
             (''email'', VText ''charlie@example.com''), (''age'', VInt 29),
             (''department'', VText ''Marketing''), (''salary'', VReal 70000),
             (''created_at'', VText (clock w))] ]"
proof -
  let ?w' = "(tick w)\<lparr>conns := (conns w)(cursor \<mapsto> c\<lparr>c_txn :=
           Some ((committed_db w c)(''users'' \<mapsto> t\<lparr>rows := seeded (clock w) (rows t)\<rparr>))\<rparr>)\<rparr>"
  have seen: "committed_db w c ''users'' = Some t"
    using assms(1,3,5) by (simp add: table_seen_no_txn)
  have run: "insertSampleData cursor w = (Inr (), ?w')"
    using insertSampleData_view [OF assms(1,2,3) seen assms(6)] assms(4) by simp
  have before: "select_users w cursor = rows t"
    using assms(1,3) seen by (simp add: select_users_no_txn users_table_def)
  have after: "select_users ?w' cursor = seeded (clock w) (rows t)"
    by (simp add: select_users_def current_db_def)
  have new: "map (stored_row (clock w)) sampleUsers =
          [ [(''id'', VInt 1), (''name'', VText ''John Doe''), (''email'', VText ''john@example.com''),
             (''age'', VInt 30), (''department'', VText ''IT''), (''salary'', VReal 75000),
             (''created_at'', VText (clock w))],
            [(''id'', VInt 2), (''name'', VText ''Jane Smith''), (''email'', VText ''jane@example.com''),
             (''age'', VInt 28), (''department'', VText ''HR''), (''salary'', VReal 65000),
             (''created_at'', VText (clock w))],
            [(''id'', VInt 3), (''name'', VText ''Bob Johnson''), (''email'', VText ''bob@example.com''),
             (''age'', VInt 35), (''department'', VText ''Finance''), (''salary'', VReal 80000),
             (''created_at'', VText (clock w))],
            [(''id'', VInt 4), (''name'', VText ''Alice Brown''), (''email'', VText ''alice@example.com''),
             (''age'', VInt 32), (''department'', VText ''IT''), (''salary'', VReal 78000),
             (''created_at'', VText (clock w))],
            [(''id'', VInt 5), (''name'', VText ''Charlie Davis''),
             (''email'', VText ''charlie@example.com''), (''age'', VInt 29),
             (''department'', VText ''Marketing''), (''salary'', VReal 70000),
             (''created_at'', VText (clock w))] ]"
    by (simp add: sampleUsers_def stored_row_def)
  have sd: "seeded (clock w) (rows t) =
         filter (\<lambda>r. cell r ''id'' \<notin> set seed_ids \<and> cell r ''email'' \<notin> set seed_emails)
           (rows t) @ map (stored_row (clock w)) sampleUsers"
    by (simp only: seeded_def not_seed_conflict)
  have fl: "files ?w' = files w" by simp
  show ?thesis
    using run fl after by (simp only: before sd new) blast
qed

lemma six_fields_literal:
  "six_fields [(''id'', i), (''name'', n), (''email'', e), (''age'', a), (''department'', d),
               (''salary'', s), (''created_at'', c)] = [i, n, e, a, d, s]"
  by (simp add: six_fields_def cell_def)

lemma connected_world_facts:
  "conns connected_world 0 = Some (opened example_self)"
  "\<not> c_closed (opened example_self)" "c_txn (opened example_self) = None"
  "next_fault connected_world = None"
  "table_seen connected_world 0
     = Some \<lparr>columns = users_columns, rows = [old_row, eve_row, frank_row]\<rparr>"
  "columns \<lparr>columns = users_columns, rows = [old_row, eve_row, frank_row]\<rparr> = users_columns"
  "select_users connected_world 0 = [old_row, eve_row, frank_row]"
  "clock connected_world = ''2024-01-01 00:00:00''"
  "files connected_world (c_path (opened example_self)) ''users''
     = Some \<lparr>columns = users_columns, rows = [old_row, eve_row, frank_row]\<rparr>"
  "\<not> private_path (c_path (opened example_self))"
  by (simp_all add: connected_world_def conflicting_world_def example_world_def opened_def
      next_fault_def select_users_def table_seen_def current_db_def committed_db_def
      users_table_def private_path_def example_self_def)

lemma connected_world_insert:
  "select_users (snd (insertSampleData 0 connected_world)) 0
   = frank_row # map (stored_row ''2024-01-01 00:00:00'') sampleUsers"
proof -
  have s: "seed_conflict old_row" "seed_conflict eve_row" "\<not> seed_conflict frank_row"
    by (simp_all add: seed_conflict_def seed_ids_def seed_emails_def example_row_cells)
  show ?thesis
    using insertSampleData_eq [OF connected_world_facts(1,2,3,10,9,6)] connected_world_facts(4,8) s
    by (simp add: select_users_def current_db_def seeded_def)
qed

theorem insertSampleData_effect_witness:
  "conns connected_world 0 = Some (opened example_self)
   \<and> \<not> c_closed (opened example_self) \<and> c_txn (opened example_self) = None
   \<and> next_fault connected_world = None
   \<and> table_seen connected_world 0
        = Some \<lparr>columns = users_columns, rows = [old_row, eve_row, frank_row]\<rparr>
   \<and> fst (insertSampleData 0 connected_world) = Inr ()
   \<and> map six_fields (select_users (snd (insertSampleData 0 connected_world)) 0) =
       [ [VInt 7, VText ''Frank Moss'', VText ''frank@example.com'', VInt 52, VText ''IT'', VReal 60000],
        [VInt 1, VText ''John Doe'', VText ''john@example.com'', VInt 30, VText ''IT'', VReal 75000],
        [VInt 2, VText ''Jane Smith'', VText ''jane@example.com'', VInt 28, VText ''HR'', VReal 65000],
        [VInt 3, VText ''Bob Johnson'', VText ''bob@example.com'', VInt 35, VText ''Finance'', VReal 80000],
        [VInt 4, VText ''Alice Brown'', VText ''alice@example.com'', VInt 32, VText ''IT'', VReal 78000],
        [VInt 5, VText ''Charlie Davis'', VText ''charlie@example.com'', VInt 29, VText ''Marketing'',
         VReal 70000] ]"
proof -
  have k: "filter (\<lambda>r. cell r ''id'' \<notin> set seed_ids \<and> cell r ''email'' \<notin> set seed_emails)
             [old_row, eve_row, frank_row] = [frank_row]"
    by (simp add: example_row_cells seed_ids_def seed_emails_def)
  have f: "six_fields frank_row
     = [VInt 7, VText ''Frank Moss'', VText ''frank@example.com'', VInt 52, VText ''IT'', VReal 60000]"
    by (simp add: six_fields_def cell_def frank_row_def)
  obtain w' where w: "insertSampleData 0 connected_world = (Inr (), w')"
    and s: "select_users w' 0 =
         filter (\<lambda>r. cell r ''id'' \<notin> set seed_ids \<and> cell r ''email'' \<notin> set seed_emails)
           (select_users connected_world 0)
         @ [ [(''id'', VInt 1), (''name'', VText ''John Doe''), (''email'', VText ''john@example.com''),
             (''age'', VInt 30), (''department'', VText ''IT''), (''salary'', VReal 75000),
             (''created_at'', VText (clock connected_world))],
            [(''id'', VInt 2), (''name'', VText ''Jane Smith''), (''email'', VText ''jane@example.com''),
             (''age'', VInt 28), (''department'', VText ''HR''), (''salary'', VReal 65000),
             (''created_at'', VText (clock connected_world))],
            [(''id'', VInt 3), (''name'', VText ''Bob Johnson''), (''email'', VText ''bob@example.com''),
             (''age'', VInt 35), (''department'', VText ''Finance''), (''salary'', VReal 80000),
             (''created_at'', VText (clock connected_world))],
            [(''id'', VInt 4), (''name'', VText ''Alice Brown''), (''email'', VText ''alice@example.com''),
             (''age'', VInt 32), (''department'', VText ''IT''), (''salary'', VReal 78000),
             (''created_at'', VText (clock connected_world))],
            [(''id'', VInt 5), (''name'', VText ''Charlie Davis''),
             (''email'', VText ''charlie@example.com''), (''age'', VInt 29),
             (''department'', VText ''Marketing''), (''salary'', VReal 70000),
             (''created_at'', VText (clock connected_world))] ]"
    using insertSampleData_effect [OF connected_world_facts(1,2,3,4,5,6)] by blast
  have m: "map six_fields (select_users w' 0) =
       [ [VInt 7, VText ''Frank Moss'', VText ''frank@example.com'', VInt 52, VText ''IT'', VReal 60000],
        [VInt 1, VText ''John Doe'', VText ''john@example.com'', VInt 30, VText ''IT'', VReal 75000],
        [VInt 2, VText ''Jane Smith'', VText ''jane@example.com'', VInt 28, VText ''HR'', VReal 65000],
        [VInt 3, VText ''Bob Johnson'', VText ''bob@example.com'', VInt 35, VText ''Finance'', VReal 80000],
        [VInt 4, VText ''Alice Brown'', VText ''alice@example.com'', VInt 32, VText ''IT'', VReal 78000],
        [VInt 5, VText ''Charlie Davis'', VText ''charlie@example.com'', VInt 29, VText ''Marketing'',
         VReal 70000] ]"
    by (simp only: s connected_world_facts(7) k) (simp add: f six_fields_literal)
  show ?thesis
    using w m connected_world_facts(1,2,3,4,5) by simp
qed

text \<open>
  The claim as the specification states it, that no row is replaced or removed on a key
  other than id, fails on the row with id 6 that holds the email of the first seed row:
  the cursor sees it before the seed step and not after.
\<close>

theorem insertSampleData_email_counterexample:
  "eve_row \<in> set (select_users connected_world 0)
   \<and> cell eve_row ''id'' \<notin> set seed_ids
   \<and> eve_row \<notin> set (select_users (snd (insertSampleData 0 connected_world)) 0)"
  by (simp add: connected_world_facts connected_world_insert example_row_cells seed_ids_def)
     (simp add: sampleUsers_def stored_row_def eve_row_def frank_row_def)


section \<open>The schema step\<close>

text \<open>
  C6. On an open cursor outside a transaction, when the engine raises no fault,
  \<^verbatim>\<open>_createUserTable\<close> returns normally and the cursor then sees a users table: the
  table that was there when there was one, and then nothing at all has changed but the
  engine call made; otherwise the empty table with exactly the declared columns and
  constraints. On a file the table is in the file at once (DDL is not held back in a
  transaction); on a private database no file is touched. Executing the statement again
  changes nothing and raises nothing.

  For \<^verbatim>\<open>initializeDatabase\<close>, from no users table or the users table of the DDL: a call
  whose engine calls meet no fault returns True; after a call that returned True the
  users table exists in the file (when the database is a file), and a second call whose
  engine calls meet no fault returns True as well, so it did not fail on the creation of
  the table.
\<close>

theorem createUserTable_if_not_exists:
  "(conns w cursor = Some c \<and> \<not> c_closed c \<and> c_txn c = None \<and> next_fault w = None \<longrightarrow>
      (\<exists>w1. createUserTable cursor w = (Inr (), w1)
         \<and> table_seen w1 cursor =
             Some (case table_seen w cursor of
                     Some t \<Rightarrow> t
                   | None \<Rightarrow>
                       \<lparr>columns =
                          [Column ''id'' INTEGER [PRIMARY_KEY],
                           Column ''name'' TEXT [NOT_NULL],
                           Column ''email'' TEXT [NOT_NULL, UNIQUE],
                           Column ''age'' INTEGER [CHECK (Conj (Ge ''age'' 0) (Le ''age'' 150))],
                           Column ''department'' TEXT [NOT_NULL],
                           Column ''salary'' REAL [CHECK (Ge ''salary'' 0)],
                           Column ''created_at'' TIMESTAMP [DEFAULT_CURRENT_TIMESTAMP] ],
                        rows = []\<rparr>)
         \<and> (\<not> private_path (c_path c) \<longrightarrow> files w1 (c_path c) ''users'' = table_seen w1 cursor)
         \<and> (private_path (c_path c) \<longrightarrow> files w1 = files w)
         \<and> (table_seen w cursor \<noteq> None \<longrightarrow> w1 = tick w)
         \<and> (next_fault w1 = None \<longrightarrow> createUserTable cursor w1 = (Inr (), tick w1))))
   \<and> (table_ok w0 (dbPath self) \<longrightarrow>
        (faults w0 = [] \<longrightarrow> fst (initializeDatabase self w0) = Inr True)
      \<and> (fst (initializeDatabase self w0) = Inr True \<longrightarrow>
           (\<not> private_path (dbPath self) \<longrightarrow>
              files (snd (initializeDatabase self w0)) (dbPath self) ''users'' \<noteq> None)
         \<and> fst (initializeDatabase self
                  ((snd (initializeDatabase self w0))\<lparr>faults := [], clock := now\<rparr>)) = Inr True))"
proof -
  have first: "\<exists>w1. createUserTable cursor w = (Inr (), w1)
         \<and> table_seen w1 cursor =
             Some (case table_seen w cursor of
                     Some t \<Rightarrow> t
                   | None \<Rightarrow> \<lparr>columns = users_columns, rows = []\<rparr>)
         \<and> (\<not> private_path (c_path c) \<longrightarrow> files w1 (c_path c) ''users'' = table_seen w1 cursor)
         \<and> (private_path (c_path c) \<longrightarrow> files w1 = files w)
         \<and> (table_seen w cursor \<noteq> None \<longrightarrow> w1 = tick w)
         \<and> (next_fault w1 = None \<longrightarrow> createUserTable cursor w1 = (Inr (), tick w1))"
    if a: "conns w cursor = Some c" "\<not> c_closed c" "c_txn c = None" "next_fault w = None"
  proof -
    let ?db = "(committed_db w c)(''users'' \<mapsto> users_table (committed_db w c))"
    let ?w1 = "write_db cursor c ?db (tick w)"
    let ?c1 = "if private_path (c_path c) then c\<lparr>c_private := ?db\<rparr> else c"
    have run: "createUserTable cursor w = (Inr (), ?w1)"
      using createUserTable_view [OF a(1,2,3)] a(4) by simp
    have c1: "conns ?w1 cursor = Some ?c1" by (simp add: write_db_def)
    have p1: "\<not> c_closed ?c1" "c_txn ?c1 = None" using a(2,3) by simp_all
    have d1: "committed_db ?w1 ?c1 = ?db" by (simp add: committed_db_def write_db_def)
    have seen0: "table_seen w cursor = committed_db w c ''users''"
      using a(1,3) by (simp add: table_seen_def current_db_def)
    have seen1: "table_seen ?w1 cursor = ?db ''users''"
      using c1 p1 d1 by (simp add: table_seen_def current_db_def)
    have tbl: "table_seen ?w1 cursor =
             Some (case table_seen w cursor of
                     Some t \<Rightarrow> t
                   | None \<Rightarrow> \<lparr>columns = users_columns, rows = []\<rparr>)"
      by (simp only: seen1 seen0) (simp add: users_table_def split: option.splits)
    have onfile: "\<not> private_path (c_path c) \<longrightarrow> files ?w1 (c_path c) ''users'' = table_seen ?w1 cursor"
      by (simp add: seen1) (simp add: write_db_def)
    have priv: "private_path (c_path c) \<longrightarrow> files ?w1 = files w"
      by (simp add: write_db_def)
    have triv: "?db = committed_db w c" if "committed_db w c ''users'' \<noteq> None"
      using that by (auto simp: users_table_def map_upd_triv)
    have cc: "(conns w)(cursor \<mapsto> c) = conns w" using a(1) by (simp add: map_upd_triv)
    have same: "table_seen w cursor \<noteq> None \<longrightarrow> ?w1 = tick w"
    proof
      assume "table_seen w cursor \<noteq> None"
      then have t: "?db = committed_db w c" using triv seen0 by simp
      show "?w1 = tick w"
        by (simp only: t) (simp add: write_db_def committed_db_def tick_def cc)
    qed
    have again: "next_fault ?w1 = None \<longrightarrow> createUserTable cursor ?w1 = (Inr (), tick ?w1)"
    proof
      assume n: "next_fault ?w1 = None"
      have u: "?db(''users'' \<mapsto> users_table ?db) = ?db" by (simp add: map_upd_triv)
      have v: "write_db cursor ?c1 ?db (tick ?w1) = tick ?w1"
        by (simp add: write_db_def tick_def cc)
      show "createUserTable cursor ?w1 = (Inr (), tick ?w1)"
        using createUserTable_view [OF c1 p1] n by (simp only: d1 u v) simp
    qed
    show ?thesis
      by (rule exI [of _ ?w1], intro conjI)
         (fact run, fact tbl, fact onfile, fact priv, fact same, fact again)
  qed
  have second: "(\<not> private_path (dbPath self) \<longrightarrow>
              files (snd (initializeDatabase self w0)) (dbPath self) ''users'' \<noteq> None)
        \<and> fst (initializeDatabase self
                 ((snd (initializeDatabase self w0))\<lparr>faults := [], clock := now\<rparr>)) = Inr True"
    if b: "table_ok w0 (dbPath self)" "fst (initializeDatabase self w0) = Inr True"
  proof -
    have ex: "files (snd (initializeDatabase self w0)) (dbPath self) ''users'' \<noteq> None"
      if np: "\<not> private_path (dbPath self)"
    proof -
      have "files (snd (initializeDatabase self w0)) = seeded_files w0 (dbPath self)"
        using initializeDatabase_files [OF b(1) np] b(2) by simp
      then show ?thesis by (simp add: seeded_files_def)
    qed
    have ok: "table_ok ((snd (initializeDatabase self w0))\<lparr>faults := [], clock := now\<rparr>) (dbPath self)"
    proof (cases "private_path (dbPath self)")
      case True
      then show ?thesis by (rule table_ok_private)
    next
      case False
      show ?thesis using initializeDatabase_table_ok [OF b(1) False] by simp
    qed
    have "fst (initializeDatabase self
                 ((snd (initializeDatabase self w0))\<lparr>faults := [], clock := now\<rparr>)) = Inr True"
      by (rule initializeDatabase_no_fault [OF ok]) simp
    then show ?thesis using ex by simp
  qed
  have zero: "fst (initializeDatabase self w0) = Inr True"
    if "table_ok w0 (dbPath self)" "faults w0 = []"
    using that by (rule initializeDatabase_no_fault)
  show ?thesis
    using first second zero by (simp only: users_columns_def) blast
qed

lemma fresh_connected_world_facts:
  "conns fresh_connected_world 0 = Some (opened example_self)"
  "next_fault fresh_connected_world = None"
  "table_seen fresh_connected_world 0 = None"
  by (simp_all add: fresh_connected_world_def example_world_def opened_def next_fault_def
      table_seen_def current_db_def committed_db_def private_path_def example_self_def)

lemma memory_connected_world_facts:
  "conns memory_connected_world 0 = Some (opened memory_self)"
  "\<not> c_closed (opened memory_self)" "c_txn (opened memory_self) = None"
  "next_fault memory_connected_world = None"
  "table_seen memory_connected_world 0 = None"
  "private_path (c_path (opened memory_self))"
  by (simp_all add: memory_connected_world_def example_world_def opened_def next_fault_def
      table_seen_def current_db_def committed_db_def private_path_def memory_self_def)

text \<open>
  The statement on a file that has the table, on a fresh file, and on the database in
  memory; then two calls of \<^verbatim>\<open>initializeDatabase\<close> on a fresh path.
\<close>

theorem createUserTable_if_not_exists_witness:
  "conns connected_world 0 = Some (opened example_self)
   \<and> \<not> c_closed (opened example_self) \<and> c_txn (opened example_self) = None
   \<and> next_fault connected_world = None
   \<and> table_seen connected_world 0 \<noteq> None
   \<and> createUserTable 0 connected_world = (Inr (), tick connected_world)
   \<and> conns fresh_connected_world 0 = Some (opened example_self)
   \<and> next_fault fresh_connected_world = None
   \<and> table_seen fresh_connected_world 0 = None
   \<and> \<not> private_path (c_path (opened example_self))
   \<and> fst (createUserTable 0 fresh_connected_world) = Inr ()
   \<and> files (snd (createUserTable 0 fresh_connected_world)) (c_path (opened example_self)) ''users''
       = Some \<lparr>columns =
                  [Column ''id'' INTEGER [PRIMARY_KEY],
                   Column ''name'' TEXT [NOT_NULL],
                   Column ''email'' TEXT [NOT_NULL, UNIQUE],
                   Column ''age'' INTEGER [CHECK (Conj (Ge ''age'' 0) (Le ''age'' 150))],
                   Column ''department'' TEXT [NOT_NULL],
                   Column ''salary'' REAL [CHECK (Ge ''salary'' 0)],
                   Column ''created_at'' TIMESTAMP [DEFAULT_CURRENT_TIMESTAMP] ],
                rows = []\<rparr>
   \<and> conns memory_connected_world 0 = Some (opened memory_self)
   \<and> next_fault memory_connected_world = None
   \<and> private_path (c_path (opened memory_self))
   \<and> fst (createUserTable 0 memory_connected_world) = Inr ()
   \<and> table_seen (snd (createUserTable 0 memory_connected_world)) 0 \<noteq> None
   \<and> files (snd (createUserTable 0 memory_connected_world)) = files memory_connected_world
   \<and> table_ok example_world (dbPath example_self) \<and> faults example_world = []
   \<and> \<not> private_path (dbPath example_self)
   \<and> fst (initializeDatabase example_self example_world) = Inr True
   \<and> files (snd (initializeDatabase example_self example_world)) (dbPath example_self) ''users''
       \<noteq> None
   \<and> fst (initializeDatabase example_self later_world) = Inr True"
proof -
  have ok: "table_ok example_world (dbPath example_self)" by (rule table_ok_examples)
  have nf: "faults example_world = []" by (simp add: example_world_def)
  have e: "table_seen connected_world 0 \<noteq> None" by (simp add: connected_world_facts)
  have a: "createUserTable 0 connected_world = (Inr (), tick connected_world)"
    using connected_world_facts(1,2,3,4) e
      createUserTable_if_not_exists
        [of connected_world 0 "opened example_self" example_world example_self
            "''2024-06-01 12:00:00''"]
    by auto
  have b: "fst (createUserTable 0 fresh_connected_world) = Inr ()
     \<and> files (snd (createUserTable 0 fresh_connected_world)) (c_path (opened example_self)) ''users''
       = Some \<lparr>columns =
                  [Column ''id'' INTEGER [PRIMARY_KEY],
                   Column ''name'' TEXT [NOT_NULL],
                   Column ''email'' TEXT [NOT_NULL, UNIQUE],
                   Column ''age'' INTEGER [CHECK (Conj (Ge ''age'' 0) (Le ''age'' 150))],
                   Column ''department'' TEXT [NOT_NULL],
                   Column ''salary'' REAL [CHECK (Ge ''salary'' 0)],
                   Column ''created_at'' TIMESTAMP [DEFAULT_CURRENT_TIMESTAMP] ],
                rows = []\<rparr>"
    using fresh_connected_world_facts connected_world_facts(2,3,10)
      createUserTable_if_not_exists
        [of fresh_connected_world 0 "opened example_self" example_world example_self
            "''2024-06-01 12:00:00''"]
    by auto
  have c: "fst (createUserTable 0 memory_connected_world) = Inr ()
     \<and> table_seen (snd (createUserTable 0 memory_connected_world)) 0 \<noteq> None
     \<and> files (snd (createUserTable 0 memory_connected_world)) = files memory_connected_world"
    using memory_connected_world_facts
      createUserTable_if_not_exists
        [of memory_connected_world 0 "opened memory_self" example_world example_self
            "''2024-06-01 12:00:00''"]
    by auto
  have d: "fst (initializeDatabase example_self example_world) = Inr True
     \<and> files (snd (initializeDatabase example_self example_world)) (dbPath example_self) ''users''
         \<noteq> None
     \<and> fst (initializeDatabase example_self later_world) = Inr True"
    using ok nf file_path_examples
      createUserTable_if_not_exists
        [of connected_world 0 "opened example_self" example_world example_self
            "''2024-06-01 12:00:00''"]
    by (simp add: later_world_def)
  show ?thesis
    using a b c d ok nf e file_path_examples
      connected_world_facts(1,2,3,4,10) fresh_connected_world_facts
      memory_connected_world_facts(1,4,6)
    by simp
qed

text \<open>
  With the name of the database in memory a call that meets no fault returns True and
  leaves no file and no row behind: the table lived in the connection.
\<close>

lemma initializeDatabase_memory:
  "fst (initializeDatabase memory_self example_world) = Inr True"
  "files (snd (initializeDatabase memory_self example_world)) = files example_world"
  "users_rows (snd (initializeDatabase memory_self example_world)) (dbPath memory_self) = []"
proof -
  have p: "private_path (dbPath memory_self)" by (simp add: private_path_def memory_self_def)
  have f: "faults example_world = []" by (simp add: example_world_def)
  show "fst (initializeDatabase memory_self example_world) = Inr True"
    by (rule initializeDatabase_private(1) [OF p f])
  show "files (snd (initializeDatabase memory_self example_world)) = files example_world"
    by (rule initializeDatabase_private(2) [OF p f])
  show "users_rows (snd (initializeDatabase memory_self example_world)) (dbPath memory_self) = []"
    by (rule users_rows_private [OF p])
qed
section \<open>The result of initializeDatabase\<close>

lemma is_sqlite3_error_iff: "is_sqlite3_error e \<longleftrightarrow> (\<exists>m. e = Sqlite3Error m)"
  by (cases e) simp_all

lemma cursor_after_connect:
  assumes "sqlite3_connect p t w = (Inr h, w1)"
  shows "connection_cursor h (set_row_factory h Row w1) = (Inr h, set_row_factory h Row w1)"
  using assms
  by (auto simp: sqlite3_connect_eq connection_cursor_def is_open_def set_row_factory_def
      split: option.splits)

text \<open>
  The result in terms of the four engine steps in their order: the first step that
  raises decides; a storage-engine error becomes False, any other exception escapes.
\<close>

lemma initializeDatabase_by_steps:
  "fst (initializeDatabase self w) =
     (case sqlite3_connect (dbPath self) (connectionTimeout self) w of
        (Inl e, w1) \<Rightarrow> if is_sqlite3_error e then Inr False else Inl e
      | (Inr h, w1) \<Rightarrow>
         (case createUserTable h (set_row_factory h Row w1) of
            (Inl e, w2) \<Rightarrow> if is_sqlite3_error e then Inr False else Inl e
          | (Inr u, w2) \<Rightarrow>
             (case insertSampleData h w2 of
                (Inl e, w3) \<Rightarrow> if is_sqlite3_error e then Inr False else Inl e
              | (Inr u, w3) \<Rightarrow>
                 (case connection_commit h w3 of
                    (Inl e, w4) \<Rightarrow> if is_sqlite3_error e then Inr False else Inl e
                  | (Inr u, w4) \<Rightarrow> Inr True))))"
proof (cases "sqlite3_connect (dbPath self) (connectionTimeout self) w")
  case (Pair r w1)
  show ?thesis
  proof (cases r)
    case (Inl e)
    then show ?thesis using Pair
      by (simp add: initializeDatabase_def getConnection_def)
  next
    case (Inr h)
    have cur: "connection_cursor h (set_row_factory h Row w1) = (Inr h, set_row_factory h Row w1)"
      using cursor_after_connect Pair Inr by simp
    show ?thesis using Pair Inr cur
      by (simp add: initializeDatabase_def getConnection_def initializeDatabase_body_def
          and_then_def split: prod.splits sum.splits)
  qed
qed

lemma initializeDatabase_False_logged:
  assumes "fst (initializeDatabase self w) = Inr False"
  shows "\<exists>m. logged (snd (initializeDatabase self w))
              = logged (snd (getConnection self initializeDatabase_body w))
                @ [ERROR (''Database initialization failed: '' @ m)]"
proof -
  have body: "b" if "initializeDatabase_body h v = (Inr b, v')" for h v b v'
    using that
    by (auto simp: initializeDatabase_body_def and_then_def split: prod.splits sum.splits)
  have conn: "b" if "getConnection self initializeDatabase_body w = (Inr b, v')" for b v'
    using that body
    by (auto simp: getConnection_def split: prod.splits sum.splits)
  show ?thesis
    using assms conn
    by (auto simp: initializeDatabase_def logging_error_def split: prod.splits sum.splits if_splits)
qed

text \<open>
  C1. \<^verbatim>\<open>initializeDatabase\<close> returns True exactly when the open, the schema step, the
  seed step and the commit all complete. A storage-engine error never escapes from it.
  It returns False exactly when the first step that raises, raises a storage-engine
  error; the error is then written to the log.
\<close>

theorem initializeDatabase_result:
  "(fst (initializeDatabase self w) = Inr True \<longleftrightarrow>
      (\<exists>h w1 w2 w3 w4.
          sqlite3_connect (dbPath self) (connectionTimeout self) w = (Inr h, w1)
        \<and> createUserTable h (set_row_factory h Row w1) = (Inr (), w2)
        \<and> insertSampleData h w2 = (Inr (), w3)
        \<and> connection_commit h w3 = (Inr (), w4)))
   \<and> (\<forall>m. fst (initializeDatabase self w) \<noteq> Inl (Sqlite3Error m))
   \<and> (fst (initializeDatabase self w) = Inr False \<longleftrightarrow>
      (\<exists>m. (\<exists>w1. sqlite3_connect (dbPath self) (connectionTimeout self) w
                     = (Inl (Sqlite3Error m), w1))
         \<or> (\<exists>h w1 w2.
               sqlite3_connect (dbPath self) (connectionTimeout self) w = (Inr h, w1)
             \<and> createUserTable h (set_row_factory h Row w1) = (Inl (Sqlite3Error m), w2))
         \<or> (\<exists>h w1 w2 w3.
               sqlite3_connect (dbPath self) (connectionTimeout self) w = (Inr h, w1)
             \<and> createUserTable h (set_row_factory h Row w1) = (Inr (), w2)
             \<and> insertSampleData h w2 = (Inl (Sqlite3Error m), w3))
         \<or> (\<exists>h w1 w2 w3 w4.
               sqlite3_connect (dbPath self) (connectionTimeout self) w = (Inr h, w1)
             \<and> createUserTable h (set_row_factory h Row w1) = (Inr (), w2)
             \<and> insertSampleData h w2 = (Inr (), w3)
             \<and> connection_commit h w3 = (Inl (Sqlite3Error m), w4))))
   \<and> (fst (initializeDatabase self w) = Inr False \<longrightarrow>
        (\<exists>m. last (logged (snd (initializeDatabase self w)))
               = ERROR (''Database initialization failed: '' @ m)))"
proof -
  have t: "fst (initializeDatabase self w) = Inr True \<longleftrightarrow>
      (\<exists>h w1 w2 w3 w4.
          sqlite3_connect (dbPath self) (connectionTimeout self) w = (Inr h, w1)
        \<and> createUserTable h (set_row_factory h Row w1) = (Inr (), w2)
        \<and> insertSampleData h w2 = (Inr (), w3)
        \<and> connection_commit h w3 = (Inr (), w4))"
    by (auto simp: initializeDatabase_by_steps split: prod.splits sum.splits if_splits)
  have n: "\<forall>m. fst (initializeDatabase self w) \<noteq> Inl (Sqlite3Error m)"
    by (auto simp: initializeDatabase_by_steps split: prod.splits sum.splits if_splits)
  have f: "fst (initializeDatabase self w) = Inr False \<longleftrightarrow>
      (\<exists>m. (\<exists>w1. sqlite3_connect (dbPath self) (connectionTimeout self) w
                     = (Inl (Sqlite3Error m), w1))
         \<or> (\<exists>h w1 w2.
               sqlite3_connect (dbPath self) (connectionTimeout self) w = (Inr h, w1)
             \<and> createUserTable h (set_row_factory h Row w1) = (Inl (Sqlite3Error m), w2))
         \<or> (\<exists>h w1 w2 w3.
               sqlite3_connect (dbPath self) (connectionTimeout self) w = (Inr h, w1)
             \<and> createUserTable h (set_row_factory h Row w1) = (Inr (), w2)
             \<and> insertSampleData h w2 = (Inl (Sqlite3Error m), w3))
         \<or> (\<exists>h w1 w2 w3 w4.
               sqlite3_connect (dbPath self) (connectionTimeout self) w = (Inr h, w1)
             \<and> createUserTable h (set_row_factory h Row w1) = (Inr (), w2)
             \<and> insertSampleData h w2 = (Inr (), w3)
             \<and> connection_commit h w3 = (Inl (Sqlite3Error m), w4)))"
    by (auto simp: initializeDatabase_by_steps is_sqlite3_error_iff
        split: prod.splits sum.splits if_splits)
  have l: "fst (initializeDatabase self w) = Inr False \<longrightarrow>
        (\<exists>m. last (logged (snd (initializeDatabase self w)))
               = ERROR (''Database initialization failed: '' @ m))"
    using initializeDatabase_False_logged [of self w] by auto
  show ?thesis using t n f l by (intro conjI)
qed

theorem initializeDatabase_result_witness:
  "fst (initializeDatabase example_self example_world) = Inr True
   \<and> (\<exists>h w1 w2 w3 w4.
          sqlite3_connect (dbPath example_self) (connectionTimeout example_self) example_world
            = (Inr h, w1)
        \<and> createUserTable h (set_row_factory h Row w1) = (Inr (), w2)
        \<and> insertSampleData h w2 = (Inr (), w3)
        \<and> connection_commit h w3 = (Inr (), w4))
   \<and> fst (initializeDatabase example_self unopenable_world) = Inr False
   \<and> (\<exists>m. last (logged (snd (initializeDatabase example_self unopenable_world)))
            = ERROR (''Database initialization failed: '' @ m))"
proof -
  have ok1: "table_ok example_world (dbPath example_self)" by (rule table_ok_examples)
  have r1: "fst (initializeDatabase example_self example_world) = Inr True"
    by (rule initializeDatabase_succeeds [OF ok1 file_path_examples]) (simp add: example_world_def)
  have ok2: "table_ok unopenable_world (dbPath example_self)"
    by (simp add: table_ok_def stored_db_def unopenable_world_def example_world_def)
  have nf: "next_fault unopenable_world = Some (Sqlite3Error ''unable to open database file'')"
    by (simp add: next_fault_def unopenable_world_def example_world_def)
  have r2: "fst (initializeDatabase example_self unopenable_world) = Inr False"
    by (simp add: initializeDatabase_fst [OF ok2 file_path_examples] nf)
  have a: "\<exists>h w1 w2 w3 w4.
          sqlite3_connect (dbPath example_self) (connectionTimeout example_self) example_world
            = (Inr h, w1)
        \<and> createUserTable h (set_row_factory h Row w1) = (Inr (), w2)
        \<and> insertSampleData h w2 = (Inr (), w3)
        \<and> connection_commit h w3 = (Inr (), w4)"
    using initializeDatabase_result [of example_self example_world] r1 by blast
  have b: "\<exists>m. last (logged (snd (initializeDatabase example_self unopenable_world)))
            = ERROR (''Database initialization failed: '' @ m)"
    using initializeDatabase_result [of example_self unopenable_world] r2 by blast
  show ?thesis using r1 r2 a b by (intro conjI)
qed

section \<open>The scope of the connection\<close>

text \<open>
  C4. Whatever the block of the caller does and however it ends (it returns, it raises
  a storage-engine error, it raises another exception), when the open has succeeded the
  connection is closed when \<^verbatim>\<open>getConnection\<close> is left. Closing does not stand in the way
  of a later open: when the engine raises no fault, the next open succeeds and yields an
  open connection.
\<close>

theorem getConnection_closes:
  assumes "sqlite3_connect (dbPath self) (connectionTimeout self) w = (Inr h, w1)"
    and "getConnection self body w = (r, w')"
  shows "\<not> is_open w' h
       \<and> (next_fault w' = None \<longrightarrow>
            (\<exists>h' w''. sqlite3_connect (dbPath self) (connectionTimeout self) w' = (Inr h', w'')
                      \<and> is_open w'' h'))"
proof -
  obtain r2 w2 where b: "body h (set_row_factory h Row w1) = (r2, w2)"
    by (cases "body h (set_row_factory h Row w1)")
  have "w' = connection_close h (case r2 of Inl e \<Rightarrow> connection_error e w2 | Inr x \<Rightarrow> w2)"
    using assms b by (auto simp: getConnection_def split: sum.splits)
  then have c: "\<not> is_open w' h" by (simp add: is_open_connection_close)
  have o: "next_fault w' = None \<longrightarrow>
            (\<exists>h' w''. sqlite3_connect (dbPath self) (connectionTimeout self) w' = (Inr h', w'')
                      \<and> is_open w'' h')"
    by (simp add: sqlite3_connect_eq is_open_def)
  show ?thesis using c o by (intro conjI)
qed

theorem getConnection_closes_witness:
  "sqlite3_connect (dbPath example_self) (connectionTimeout example_self) example_world
     = (Inr 0, snd (sqlite3_connect (dbPath example_self) (connectionTimeout example_self)
                      example_world))
   \<and> fst (getConnection example_self failing_block example_world)
       = Inl (OtherException ''KeyError'')
   \<and> \<not> is_open (snd (getConnection example_self failing_block example_world)) 0
   \<and> next_fault (snd (getConnection example_self failing_block example_world)) = None
   \<and> (\<exists>h' w''. sqlite3_connect (dbPath example_self) (connectionTimeout example_self)
                  (snd (getConnection example_self failing_block example_world)) = (Inr h', w'')
              \<and> is_open w'' h')"
proof -
  have n: "next_fault example_world = None" "next_handle example_world = 0"
    "tick example_world = example_world"
    by (simp_all add: next_fault_def tick_def example_world_def)
  have h: "sqlite3_connect (dbPath example_self) (connectionTimeout example_self) example_world
     = (Inr 0, snd (sqlite3_connect (dbPath example_self) (connectionTimeout example_self)
                      example_world))"
    by (simp add: sqlite3_connect_eq n)
  have g: "getConnection example_self failing_block example_world
     = (fst (getConnection example_self failing_block example_world),
        snd (getConnection example_self failing_block example_world))"
    by simp
  have r: "fst (getConnection example_self failing_block example_world)
       = Inl (OtherException ''KeyError'')"
    by (simp add: getConnection_def sqlite3_connect_eq n failing_block_def)
  have f: "next_fault (snd (getConnection example_self failing_block example_world)) = None"
    by (simp add: getConnection_def sqlite3_connect_eq n failing_block_def connection_error_def
        connection_close_def set_row_factory_def next_fault_def tick_def example_world_def)
  show ?thesis
    using h r f getConnection_closes [OF h g] by simp
qed

section \<open>The configuration\<close>

lemma py_int_30: "py_int ''30'' = Inr 30"
  by (simp add: py_int_def parse_signed_def parse_literal_def strip_def is_space_def is_digit_def
      digit_value_def)

lemma py_int_5: "py_int ''5'' = Inr 5"
  by (simp add: py_int_def parse_signed_def parse_literal_def strip_def is_space_def is_digit_def
      digit_value_def)

lemma getConnection_settings:
  assumes "next_fault v = None"
  shows "fst (getConnection self connection_settings v)
         = Inr (Some (dbPath self, connectionTimeout self))"
  using assms
  by (simp add: getConnection_def sqlite3_connect_eq set_row_factory_def connection_settings_def)

text \<open>
  C8. The constructor reads the environment and does nothing else: the world is returned
  as it was. \<open>dbPath\<close> is the value of DATABASE_PATH, \<open>users.db\<close> when the variable is
  not set; \<open>connectionTimeout\<close> is \<^verbatim>\<open>int()\<close> of the value of DB_TIMEOUT, 30 when the
  variable is not set. A connection that \<^verbatim>\<open>getConnection\<close> opens for the component and
  hands to the caller's block carries this path and this timeout.
\<close>

theorem init_configuration:
  assumes "init w = (r, w')"
  shows "w' = w
       \<and> (\<forall>self. r = Inr self \<longrightarrow>
            dbPath self = (case environ w ''DATABASE_PATH'' of None \<Rightarrow> ''users.db'' | Some p \<Rightarrow> p)
          \<and> py_int (case environ w ''DB_TIMEOUT'' of None \<Rightarrow> ''30'' | Some s \<Rightarrow> s)
              = Inr (connectionTimeout self)
          \<and> (\<forall>v. next_fault v = None \<longrightarrow>
                fst (getConnection self connection_settings v)
                = Inr (Some (dbPath self, connectionTimeout self))))
       \<and> (environ w ''DB_TIMEOUT'' = None \<longrightarrow> (\<exists>self. r = Inr self \<and> connectionTimeout self = 30))"
proof -
  have a: "w' = w"
    using assms by (auto simp: init_def Let_def split: sum.splits)
  have b: "dbPath self = (case environ w ''DATABASE_PATH'' of None \<Rightarrow> ''users.db'' | Some p \<Rightarrow> p)
          \<and> py_int (case environ w ''DB_TIMEOUT'' of None \<Rightarrow> ''30'' | Some s \<Rightarrow> s)
              = Inr (connectionTimeout self)"
    if "r = Inr self" for self
    using assms that by (auto simp: init_def getenv_def Let_def split: sum.splits)
  have c: "environ w ''DB_TIMEOUT'' = None \<longrightarrow> (\<exists>self. r = Inr self \<and> connectionTimeout self = 30)"
    using assms by (auto simp: init_def getenv_def Let_def py_int_30)
  show ?thesis
    using a b c getConnection_settings by blast
qed

theorem init_configuration_witness:
  "fst (init example_world) = Inr \<lparr>dbPath = ''users.db'', connectionTimeout = 30\<rparr>
   \<and> snd (init example_world) = example_world
   \<and> fst (init configured_world) = Inr \<lparr>dbPath = ''/var/data/app.db'', connectionTimeout = 5\<rparr>
   \<and> snd (init configured_world) = configured_world
   \<and> next_fault configured_world = None
   \<and> fst (getConnection \<lparr>dbPath = ''/var/data/app.db'', connectionTimeout = 5\<rparr>
             connection_settings configured_world)
       = Inr (Some (''/var/data/app.db'', 5))"
proof -
  have e1: "environ example_world ''DB_TIMEOUT'' = None"
    "environ example_world ''DATABASE_PATH'' = None"
    by (simp_all add: example_world_def)
  have e2: "environ configured_world ''DB_TIMEOUT'' = Some ''5''"
    "environ configured_world ''DATABASE_PATH'' = Some ''/var/data/app.db''"
    "next_fault configured_world = None"
    by (simp_all add: configured_world_def example_world_def next_fault_def)
  have i1: "init example_world = (fst (init example_world), snd (init example_world))"
    and i2: "init configured_world = (fst (init configured_world), snd (init configured_world))"
    by simp_all
  have r2: "fst (init configured_world) = Inr \<lparr>dbPath = ''/var/data/app.db'', connectionTimeout = 5\<rparr>"
    by (simp add: init_def getenv_def e2 py_int_5)
  have t1: "fst (init example_world) = Inr \<lparr>dbPath = ''users.db'', connectionTimeout = 30\<rparr>"
    using init_configuration [OF i1] e1 by auto
  have t2: "snd (init configured_world) = configured_world
     \<and> fst (getConnection \<lparr>dbPath = ''/var/data/app.db'', connectionTimeout = 5\<rparr>
             connection_settings configured_world)
       = Inr (Some (''/var/data/app.db'', 5))"
    using init_configuration [OF i2] r2 e2 by auto
  show ?thesis
    using t1 t2 r2 e2(3) init_configuration [OF i1] by simp
qed


end
